theory Spec2Isabelle
  imports Main "HOL-Library.Word" "HOL-Library.AList" "HOL-Library.Log_Nat"
begin

section \<open>Exceptions\<close>

text \<open>
  \<^verbatim>\<open>SpotGPS.py\<close> raises nothing itself: every failure of \<^verbatim>\<open>MapMeClass\<close> is an exception of
  Python, pandas (1.x semantics) or plotly that propagates to the caller. The model returns
  such an exception as the left summand of a result.
  \<^verbatim>\<open>OutOfBoundsDatetime\<close> is pandas' subclass of \<^verbatim>\<open>ValueError\<close> and \<^verbatim>\<open>IndexingError\<close> its own
  exception class (not an \<^verbatim>\<open>IndexError\<close>). \<^verbatim>\<open>PlotlyError\<close> stands for whatever plotly raises
  when it rejects an argument. \<^verbatim>\<open>NotModelled\<close> is no Python exception: it marks the inputs of
  a library call on which this development says nothing.
\<close>

datatype error =
    KeyError string
  | ValueError
  | TypeError
  | IndexError
  | IndexingError
  | OutOfBoundsDatetime
  | AttributeError string
  | PlotlyError
  | NotModelled

section \<open>The input file\<close>

text \<open>
  A location-history export is a JSON object whose members are arrays of objects, the
  records being under \<^verbatim>\<open>"locations"\<close>. A member of a record is an integer that fits
  64 bits (\<open>JInt\<close>), a string that is the decimal numeral of such an integer, as the export
  writes \<^verbatim>\<open>timestampMs\<close> (\<open>JNumStr\<close>), or a string that Python's \<^verbatim>\<open>float()\<close> rejects (\<open>JText\<close>).
  A file that is not JSON at all is \<open>Malformed\<close>. Members are kept in document order.
\<close>

datatype jvalue = JInt "64 word" | JNumStr "64 word" | JText

type_synonym jobject = "(string \<times> jvalue) list"

datatype json_file = Malformed | Document "(string \<times> jobject list) list"

text \<open>
  The decoder builds a Python \<^verbatim>\<open>dict\<close> from an object: a repeated key keeps its first
  position and takes its last value.
\<close>

definition py_dict :: "('k \<times> 'v) list \<Rightarrow> ('k \<times> 'v) list" where
  "py_dict kvs = fold (\<lambda>kv d. AList.update (fst kv) (snd kv) d) kvs []"

section \<open>IEEE 754 binary64\<close>

text \<open>
  A finite double is \<open>Float64 m e\<close>, the number \<open>m * 2 ^ e\<close>, in the one form the format
  stores: \<open>2 ^ 52 \<le> |m| < 2 ^ 53\<close> for a normal number, \<open>e = - 1074\<close> for a subnormal one
  and for zero (the two zeros are not told apart). NaN is \<open>None\<close> in a column of doubles.
\<close>

datatype float64 = Float64 int int

definition rne_div :: "int \<Rightarrow> int \<Rightarrow> int" where
  \<comment> \<open>the integer nearest to \<open>n / d\<close> (for \<open>0 \<le> n\<close>, \<open>0 < d\<close>), a tie going to the even one\<close>
  "rne_div n d =
     (let q = n div d; r = n mod d
      in if 2 * r < d then q else if d < 2 * r then q + 1 else if even q then q else q + 1)"

definition float_quot :: "int \<Rightarrow> int \<Rightarrow> float64" where
  \<comment> \<open>the double nearest to \<open>p / q\<close> for integers \<open>p\<close> and \<open>0 < q\<close> (round to nearest, ties to
      even), as long as the quotient is below \<open>2 ^ 1024\<close>\<close>
  "float_quot p q =
     (if p = 0 then Float64 0 (- 1074)
      else
        let a = \<bar>p\<bar>;
            k = bitlen a - bitlen q;
            l = (if q * 2 ^ nat k \<le> a * 2 ^ nat (- k) then k else k - 1);
            e = max (l - 52) (- 1074);
            m = rne_div (a * 2 ^ nat (- e)) (q * 2 ^ nat e)
        in if m = 2 ^ 53 then Float64 (sgn p * 2 ^ 52) (e + 1) else Float64 (sgn p * m) e)"

definition int_to_float64 :: "int \<Rightarrow> float64" where
  \<comment> \<open>the conversion of an integer to a double\<close>
  "int_to_float64 v = float_quot v 1"

fun float_truediv :: "float64 \<Rightarrow> int \<Rightarrow> float64" where
  \<comment> \<open>\<open>x / d\<close> in double arithmetic, for an integer \<open>0 < d\<close> that is itself a double\<close>
  "float_truediv (Float64 m e) d = float_quot (m * 2 ^ nat e) (d * 2 ^ nat (- e))"

section \<open>Data frames\<close>

text \<open>
  A column carries the dtype pandas gives it. \<open>RawCol\<close> holds values as they were loaded,
  \<open>None\<close> where the record had no such member (pandas stores NaN there): its dtype is int64
  when every value is an integer, float64 when integers and gaps mix, object when a string
  is present. \<open>IntCol\<close> is an integer column, \<open>FloatCol\<close> a float64 column (\<open>None\<close> is NaN),
  \<open>DatetimeCol\<close> a datetime64[ns] column given in whole milliseconds since the epoch (\<open>None\<close>
  is NaT) and \<open>StrCol\<close> a column of Python strings.
  A frame has its row labels and its columns in order; every column is as long as the index.
\<close>

datatype column =
    RawCol "jvalue option list"
  | IntCol "int list"
  | FloatCol "float64 option list"
  | DatetimeCol "int option list"
  | StrCol "string list"

record DataFrame =
  index :: "nat list"
  columns :: "(string \<times> column) list"

fun col_len :: "column \<Rightarrow> nat" where
  "col_len (RawCol xs) = length xs"
| "col_len (IntCol xs) = length xs"
| "col_len (FloatCol xs) = length xs"
| "col_len (DatetimeCol xs) = length xs"
| "col_len (StrCol xs) = length xs"

text \<open>\<^verbatim>\<open>df[name]\<close>: the column, or \<^verbatim>\<open>KeyError\<close>.\<close>

definition getitem :: "DataFrame \<Rightarrow> string \<Rightarrow> error + column" where
  "getitem df name =
     (case map_of (columns df) name of None \<Rightarrow> Inl (KeyError name) | Some c \<Rightarrow> Inr c)"

text \<open>\<^verbatim>\<open>df[name] = c\<close>: replaces the column where it stands, or appends a new one.\<close>

definition setitem :: "DataFrame \<Rightarrow> string \<Rightarrow> column \<Rightarrow> DataFrame" where
  "setitem df name c = df\<lparr>columns := AList.update name c (columns df)\<rparr>"

section \<open>The loader\<close>

fun same_length :: "'a list list \<Rightarrow> bool" where
  "same_length [] = True"
| "same_length (l # ls) = list_all (\<lambda>m. length m = length l) ls"

text \<open>
  \<^verbatim>\<open>pd.read_json(filepath, orient='values')\<close> decodes the file and hands the \<^verbatim>\<open>dict\<close> to the
  \<^verbatim>\<open>DataFrame\<close> constructor: each member becomes a column whose cells are the decoded
  records. It raises \<^verbatim>\<open>ValueError\<close> when the file does not decode and when the arrays
  differ in length. The argument of the model is the content found at \<^verbatim>\<open>filepath\<close>.
\<close>

definition pd_read_json :: "json_file \<Rightarrow> error + (string \<times> jobject list) list" where
  "pd_read_json filepath =
     (case filepath of
        Malformed \<Rightarrow> Inl ValueError
      | Document members \<Rightarrow>
          (let d = py_dict members
           in if same_length (map snd d)
              then Inr (map (\<lambda>kv. (fst kv, map py_dict (snd kv))) d)
              else Inl ValueError))"

text \<open>
  \<^verbatim>\<open>pd.DataFrame.from_dict(dict_list)\<close> on a list of records: one row per record, labelled
  \<open>0, 1, ...\<close>; one column per key, in the order the keys first occur; NaN where a record
  lacks the key.
\<close>

fun first_seen :: "'a list \<Rightarrow> 'a list \<Rightarrow> 'a list" where
  "first_seen acc [] = acc"
| "first_seen acc (k # ks) = first_seen (if k \<in> set acc then acc else acc @ [k]) ks"

definition DataFrame_from_dict :: "jobject list \<Rightarrow> DataFrame" where
  "DataFrame_from_dict dict_list =
     \<lparr>index = [0..<length dict_list],
      columns = map (\<lambda>k. (k, RawCol (map (\<lambda>d. map_of d k) dict_list)))
                    (first_seen [] (concat (map (map fst) dict_list)))\<rparr>"

text \<open>
  \<^verbatim>\<open>df.filter(items=...)\<close> keeps the columns named in \<open>items\<close> that the frame has, in the
  order of \<open>items\<close>; a name the frame lacks is skipped without an error.
\<close>

definition df_filter_items :: "DataFrame \<Rightarrow> string list \<Rightarrow> DataFrame" where
  "df_filter_items df items =
     df\<lparr>columns := List.map_filter
                     (\<lambda>k. map_option (\<lambda>c. (k, c)) (map_of (columns df) k)) items\<rparr>"

definition ReadJson :: "json_file \<Rightarrow> error + DataFrame" where
  "ReadJson filepath =
     (case pd_read_json filepath of
        Inl e \<Rightarrow> Inl e
      | Inr json_data \<Rightarrow>
          (case map_of json_data ''locations'' of
             None \<Rightarrow> Inl (KeyError ''locations'')
           | Some dict_list \<Rightarrow>
               Inr (df_filter_items (DataFrame_from_dict dict_list)
                      [''latitudeE7'', ''longitudeE7'', ''timestampMs''])))"

section \<open>Results\<close>

definition and_then :: "error + 'a \<Rightarrow> ('a \<Rightarrow> error + 'b) \<Rightarrow> error + 'b" where
  \<comment> \<open>sequencing: an exception of the first step leaves the rest undone\<close>
  "and_then r f = (case r of Inl e \<Rightarrow> Inl e | Inr x \<Rightarrow> f x)"

section \<open>Time derivation\<close>

text \<open>
  \<^verbatim>\<open>pd.to_datetime(column, unit='ms')\<close> reads a number as milliseconds since the epoch, in
  UTC. A gap (NaN) becomes NaT, and so does the integer \<open>- 2 ^ 63\<close>, which is pandas' own
  NaT marker. A numeric string is converted through \<^verbatim>\<open>float()\<close>, which is exact on every
  value in range. A value whose nanoseconds do not fit 64 bits raises
  \<^verbatim>\<open>OutOfBoundsDatetime\<close>, a string that is no number raises \<^verbatim>\<open>ValueError\<close>; the first
  offending row decides.
\<close>

definition ms_in_bounds :: "int \<Rightarrow> bool" where
  "ms_in_bounds ms = (- 9223372036854 \<le> ms \<and> ms \<le> 9223372036854)"

fun to_datetime_cell :: "jvalue option \<Rightarrow> error + int option" where
  "to_datetime_cell None = Inr None"
| "to_datetime_cell (Some (JInt v)) =
     (if sint v = - (2 ^ 63) then Inr None
      else if ms_in_bounds (sint v) then Inr (Some (sint v))
      else Inl OutOfBoundsDatetime)"
| "to_datetime_cell (Some (JNumStr v)) =
     (if ms_in_bounds (sint v) then Inr (Some (sint v)) else Inl OutOfBoundsDatetime)"
| "to_datetime_cell (Some JText) = Inl ValueError"

fun to_datetime_cells :: "jvalue option list \<Rightarrow> error + int option list" where
  "to_datetime_cells [] = Inr []"
| "to_datetime_cells (c # cs) =
     (case to_datetime_cell c of
        Inl e \<Rightarrow> Inl e
      | Inr d \<Rightarrow> (case to_datetime_cells cs of Inl e \<Rightarrow> Inl e | Inr ds \<Rightarrow> Inr (d # ds)))"

fun pd_to_datetime :: "column \<Rightarrow> error + int option list" where
  "pd_to_datetime (RawCol cs) = to_datetime_cells cs"
| "pd_to_datetime (DatetimeCol ds) = Inr ds"
| "pd_to_datetime (IntCol xs) = Inl NotModelled"
| "pd_to_datetime (FloatCol xs) = Inl NotModelled"
| "pd_to_datetime (StrCol xs) = Inl NotModelled"

text \<open>
  The calendar fields of a timestamp, in the proleptic Gregorian calendar. The date comes
  from the day number (days since 1970-01-01), counted in 400-year eras that start on
  1 March; the time of day from the milliseconds left.
\<close>

definition civil_from_days :: "int \<Rightarrow> int \<times> int \<times> int" where
  "civil_from_days z0 =
     (let z = z0 + 719468;
          era = z div 146097;
          doe = z mod 146097;
          yoe = (doe - doe div 1460 + doe div 36524 - doe div 146096) div 365;
          doy = doe - (365 * yoe + yoe div 4 - yoe div 100);
          mp = (5 * doy + 2) div 153;
          d = doy - (153 * mp + 2) div 5 + 1;
          m = (if mp < 10 then mp + 3 else mp - 9);
          y = yoe + era * 400 + (if m \<le> 2 then 1 else 0)
      in (y, m, d))"

definition dt_year :: "int \<Rightarrow> int" where
  "dt_year ms = fst (civil_from_days (ms div 86400000))"

definition dt_month :: "int \<Rightarrow> int" where
  "dt_month ms = fst (snd (civil_from_days (ms div 86400000)))"

definition dt_day :: "int \<Rightarrow> int" where
  "dt_day ms = snd (snd (civil_from_days (ms div 86400000)))"

definition dt_hour :: "int \<Rightarrow> int" where
  "dt_hour ms = (ms mod 86400000) div 3600000"

definition dt_minute :: "int \<Rightarrow> int" where
  "dt_minute ms = ((ms mod 86400000) div 60000) mod 60"

definition dt_second :: "int \<Rightarrow> int" where
  "dt_second ms = ((ms mod 86400000) div 1000) mod 60"

text \<open>
  A field of the \<^verbatim>\<open>.dt\<close> accessor is an integer column when no row is NaT; with a NaT the
  column is float64, NaN in the NaT rows.
\<close>

definition dt_field :: "(int \<Rightarrow> int) \<Rightarrow> int option list \<Rightarrow> column" where
  "dt_field f date_time =
     (case those date_time of
        Some ts \<Rightarrow> IntCol (map f ts)
      | None \<Rightarrow> FloatCol (map (map_option (\<lambda>t. int_to_float64 (f t))) date_time))"

text \<open>\<^verbatim>\<open>str\<close> of an integer: decimal digits, a minus sign if negative, no padding.\<close>

fun str_nat :: "nat \<Rightarrow> string" where
  "str_nat n = (if n < 10 then [''0123456789'' ! n]
                else str_nat (n div 10) @ [''0123456789'' ! (n mod 10)])"

declare str_nat.simps [simp del]

definition str_int :: "int \<Rightarrow> string" where
  "str_int i = (if i < 0 then CHR ''-'' # str_nat (nat (- i)) else str_nat (nat i))"

text \<open>
  \<^verbatim>\<open>str\<close> of a double: \<^verbatim>\<open>nan\<close> for NaN and the integer followed by \<^verbatim>\<open>.0\<close> for a whole
  number below \<open>10 ^ 16\<close>. The shortest-digits form of the other doubles is not modelled.
\<close>

fun str_float :: "float64 option \<Rightarrow> error + string" where
  "str_float None = Inr ''nan''"
| "str_float (Some (Float64 m e)) =
     (if (m * 2 ^ nat e) mod 2 ^ nat (- e) = 0 \<and> \<bar>m * 2 ^ nat e div 2 ^ nat (- e)\<bar> < 10 ^ 16
      then Inr (str_int (m * 2 ^ nat e div 2 ^ nat (- e)) @ ''.0'')
      else Inl NotModelled)"

fun str_floats :: "float64 option list \<Rightarrow> error + string list" where
  "str_floats [] = Inr []"
| "str_floats (x # xs) =
     (case str_float x of
        Inl e \<Rightarrow> Inl e
      | Inr s \<Rightarrow> (case str_floats xs of Inl e \<Rightarrow> Inl e | Inr ss \<Rightarrow> Inr (s # ss)))"

text \<open>
  \<^verbatim>\<open>column.astype(str)\<close>, for the dtypes the program applies it to (the fields it has just
  derived).
\<close>

fun astype_str :: "column \<Rightarrow> error + string list" where
  "astype_str (IntCol xs) = Inr (map str_int xs)"
| "astype_str (FloatCol xs) = str_floats xs"
| "astype_str (StrCol ss) = Inr ss"
| "astype_str (RawCol cs) = Inl NotModelled"
| "astype_str (DatetimeCol ds) = Inl NotModelled"

text \<open>\<^verbatim>\<open>+\<close> on string columns: a scalar is appended to every row, two columns join row by row.\<close>

definition add_str :: "string list \<Rightarrow> string \<Rightarrow> string list" where
  "add_str col s = map (\<lambda>x. x @ s) col"

definition add_col :: "string list \<Rightarrow> string list \<Rightarrow> string list" where
  "add_col col1 col2 = map (\<lambda>xy. fst xy @ snd xy) (zip col1 col2)"

definition DeriveTimeIntervals :: "DataFrame \<Rightarrow> error + DataFrame" where
  "DeriveTimeIntervals json_df =
     and_then (getitem json_df ''timestampMs'') (\<lambda>ts.
     and_then (pd_to_datetime ts) (\<lambda>date_time.
       let df1 = setitem json_df ''year'' (dt_field dt_year date_time);
           df2 = setitem df1 ''month'' (dt_field dt_month date_time);
           df3 = setitem df2 ''day'' (dt_field dt_day date_time);
           df4 = setitem df3 ''hour'' (dt_field dt_hour date_time);
           df5 = setitem df4 ''min'' (dt_field dt_minute date_time);
           df6 = setitem df5 ''sec'' (dt_field dt_second date_time);
           df7 = setitem df6 ''timestamp_fixed'' (DatetimeCol date_time)
       in
     and_then (and_then (getitem df7 ''month'') astype_str) (\<lambda>month.
     and_then (and_then (getitem df7 ''day'') astype_str) (\<lambda>day.
     and_then (and_then (getitem df7 ''year'') astype_str) (\<lambda>year.
     and_then (and_then (getitem df7 ''hour'') astype_str) (\<lambda>hour.
     and_then (and_then (getitem df7 ''min'') astype_str) (\<lambda>minute.
       Inr (setitem df7 ''timestamp_string''
              (StrCol (add_col (add_str (add_col (add_str (add_col (add_str (add_col
                 (add_str month ''/'') day) ''/'') year) '' '') hour) '':'') minute))))))))))"

section \<open>Coordinate fix\<close>

text \<open>
  \<^verbatim>\<open>column / d\<close> for a positive integer \<open>d\<close>: true division, in double arithmetic, of every
  value; NaN stays NaN. The integers are converted to double first. A string in the column
  and a datetime column raise \<^verbatim>\<open>TypeError\<close>.
\<close>

fun raw_number :: "jvalue option \<Rightarrow> float64 option option" where
  "raw_number None = Some None"
| "raw_number (Some (JInt v)) = Some (Some (int_to_float64 (sint v)))"
| "raw_number (Some (JNumStr v)) = None"
| "raw_number (Some JText) = None"

fun truediv :: "column \<Rightarrow> int \<Rightarrow> error + column" where
  "truediv (RawCol cs) d =
     (case those (map raw_number cs) of
        None \<Rightarrow> Inl TypeError
      | Some xs \<Rightarrow> Inr (FloatCol (map (map_option (\<lambda>x. float_truediv x d)) xs)))"
| "truediv (IntCol xs) d = Inr (FloatCol (map (\<lambda>x. Some (float_truediv (int_to_float64 x) d)) xs))"
| "truediv (FloatCol xs) d = Inr (FloatCol (map (map_option (\<lambda>x. float_truediv x d)) xs))"
| "truediv (DatetimeCol ds) d = Inl TypeError"
| "truediv (StrCol ss) d = (if ss = [] then Inr (StrCol []) else Inl TypeError)"

definition FixLatLong :: "DataFrame \<Rightarrow> error + DataFrame" where
  "FixLatLong json_df =
     and_then (and_then (getitem json_df ''latitudeE7'') (\<lambda>c. truediv c 10000000)) (\<lambda>lat.
       let df1 = setitem json_df ''latitudeE7'' lat in
     and_then (and_then (getitem df1 ''longitudeE7'') (\<lambda>c. truediv c 10000000)) (\<lambda>lon.
       Inr (setitem df1 ''longitudeE7'' lon)))"

section \<open>The object\<close>

text \<open>
  The records plotly is given. \<^verbatim>\<open>go.Scattermapbox\<close>, \<^verbatim>\<open>go.Layout\<close> and \<^verbatim>\<open>fig.show\<close> belong to
  plotly, which checks what it is given and raises on what it rejects; which arguments it
  accepts is a parameter of the model.
\<close>

datatype cell =
    RawCell "jvalue option"
  | IntCell int
  | FloatCell "float64 option"
  | DatetimeCell "int option"
  | StrCell string

fun col_cells :: "column \<Rightarrow> cell list" where
  "col_cells (RawCol xs) = map RawCell xs"
| "col_cells (IntCol xs) = map IntCell xs"
| "col_cells (FloatCol xs) = map FloatCell xs"
| "col_cells (DatetimeCol xs) = map DatetimeCell xs"
| "col_cells (StrCol xs) = map StrCell xs"

record marker_dict =
  marker_size :: rat
  marker_color :: string
  marker_opacity :: rat

record scatter_dict =
  scatter_lat :: column
  scatter_lon :: column
  scatter_mode :: string
  scatter_text :: column
  scatter_marker :: marker_dict

record center_dict =
  center_lat :: cell
  center_lon :: cell

record mapbox_dict =
  accesstoken :: "string option"
  bearing :: int
  center :: center_dict
  pitch :: int
  zoom :: int
  style :: string

record layout_dict =
  autosize :: bool
  height :: int
  width :: int
  hovermode :: string
  mapbox :: mapbox_dict

record figure =
  traces :: "scatter_dict list"
  fig_layout :: "layout_dict option"

record plotly =
  Scattermapbox_accepts :: "scatter_dict \<Rightarrow> bool"
  Layout_accepts :: "layout_dict \<Rightarrow> bool"
  show_accepts :: "figure \<Rightarrow> string option \<Rightarrow> (string \<times> string) list \<Rightarrow> bool"

text \<open>
  The attributes of a \<^verbatim>\<open>MapMeClass\<close> object. \<^verbatim>\<open>scatterdata\<close> and \<^verbatim>\<open>layout\<close> do not exist before
  \<^verbatim>\<open>PlotMap\<close> sets them (\<open>None\<close>). A frame is never changed in place after construction, so
  the two frames are held by value although \<^verbatim>\<open>__init__\<close> makes them one object.
\<close>

record MapMeClass =
  data :: DataFrame
  fig :: "figure option"
  originaldata :: DataFrame
  scatterdata :: "scatter_dict option"
  layout :: "layout_dict option"

definition MapMeClass_init :: "json_file \<Rightarrow> error + MapMeClass" where
  "MapMeClass_init filepath =
     and_then (ReadJson filepath) (\<lambda>data1.
     and_then (DeriveTimeIntervals data1) (\<lambda>data2.
     and_then (FixLatLong data2) (\<lambda>data3.
       Inr \<lparr>data = data3, fig = None, originaldata = data3,
            scatterdata = None, layout = None\<rparr>)))"

section \<open>Filtering\<close>

text \<open>
  The argument of \<^verbatim>\<open>Filter\<close> is a Python list of booleans (\<open>BoolList\<close>), a numpy array of
  dtype bool (\<open>BoolArray\<close>) or a pandas Series of dtype bool, which has row labels of its own
  (\<open>BoolSeries\<close>). \<^verbatim>\<open>df.loc[key, :]\<close> first asks pandas' \<^verbatim>\<open>is_bool_indexer\<close> whether the key
  is a boolean mask. An array or a Series of dtype bool is one, and so is a list of booleans
  that is not empty; the empty list is not (numpy makes a float array of it), and pandas
  reads it as a list of no row labels: the result is the frame without rows, and no error.
  A mask that is a Series is aligned with the frame by label: every label of the frame must
  occur in the Series, or pandas raises \<^verbatim>\<open>IndexingError\<close> (\<^verbatim>\<open>ValueError\<close> when the labels of
  the Series repeat); labels the frame lacks are ignored. A mask that is a list or an array
  must be as long as the frame, or pandas raises \<^verbatim>\<open>IndexError\<close>.
  The rows whose flag is true are kept, with their labels, in all columns.
\<close>

datatype mask = BoolList "bool list" | BoolArray "bool list" | BoolSeries "(nat \<times> bool) list"

definition is_bool_indexer :: "mask \<Rightarrow> bool" where
  "is_bool_indexer key =
     (case key of BoolList bs \<Rightarrow> bs \<noteq> [] | BoolArray bs \<Rightarrow> True | BoolSeries s \<Rightarrow> True)"

definition check_bool_indexer :: "nat list \<Rightarrow> mask \<Rightarrow> error + bool list" where
  "check_bool_indexer idx key =
     (case key of
        BoolList bs \<Rightarrow> if length bs = length idx then Inr bs else Inl IndexError
      | BoolArray bs \<Rightarrow> if length bs = length idx then Inr bs else Inl IndexError
      | BoolSeries s \<Rightarrow>
          if map fst s = idx then Inr (map snd s)
          else if \<not> distinct (map fst s) then Inl ValueError
          else (case those (map (map_of s) idx) of
                  None \<Rightarrow> Inl IndexingError
                | Some bs \<Rightarrow> Inr bs))"

definition select_rows :: "bool list \<Rightarrow> 'a list \<Rightarrow> 'a list" where
  "select_rows bs xs = map snd (filter fst (zip bs xs))"

fun col_select :: "bool list \<Rightarrow> column \<Rightarrow> column" where
  "col_select bs (RawCol xs) = RawCol (select_rows bs xs)"
| "col_select bs (IntCol xs) = IntCol (select_rows bs xs)"
| "col_select bs (FloatCol xs) = FloatCol (select_rows bs xs)"
| "col_select bs (DatetimeCol xs) = DatetimeCol (select_rows bs xs)"
| "col_select bs (StrCol xs) = StrCol (select_rows bs xs)"

definition df_loc :: "DataFrame \<Rightarrow> mask \<Rightarrow> error + DataFrame" where
  "df_loc df key =
     (if is_bool_indexer key
      then and_then (check_bool_indexer (index df) key) (\<lambda>bs.
             Inr \<lparr>index = select_rows bs (index df),
                  columns = map (\<lambda>kc. (fst kc, col_select bs (snd kc))) (columns df)\<rparr>)
      else Inr \<lparr>index = [],
                columns = map (\<lambda>kc. (fst kc, col_select [] (snd kc))) (columns df)\<rparr>)"

text \<open>
  A method that assigns to \<^verbatim>\<open>self\<close> returns the object after the call, and the exception
  if the call raised one. In \<^verbatim>\<open>self.data = self.data.loc[filter, :]\<close> the right-hand side
  is evaluated first.
\<close>

definition Filter :: "mask \<Rightarrow> MapMeClass \<Rightarrow> MapMeClass \<times> error option" where
  "Filter key self =
     (case df_loc (data self) key of
        Inl e \<Rightarrow> (self, Some e)
      | Inr d \<Rightarrow> (self\<lparr>data := d\<rparr>, None))"

definition ClearFilter :: "MapMeClass \<Rightarrow> MapMeClass" where
  "ClearFilter self = self\<lparr>data := originaldata self\<rparr>"

text \<open>A sequence of \<^verbatim>\<open>Filter\<close> calls; the first exception ends it.\<close>

fun Filters :: "mask list \<Rightarrow> MapMeClass \<Rightarrow> MapMeClass \<times> error option" where
  "Filters [] self = (self, None)"
| "Filters (key # keys) self =
     (case Filter key self of
        (self1, Some e) \<Rightarrow> (self1, Some e)
      | (self1, None) \<Rightarrow> Filters keys self1)"

section \<open>The presenter\<close>

text \<open>Indexing a numpy array at a position that is not negative.\<close>

definition np_index :: "'a list \<Rightarrow> nat \<Rightarrow> error + 'a" where
  "np_index xs i = (if i < length xs then Inr (xs ! i) else Inl IndexError)"

definition SetScatterData ::
  "plotly \<Rightarrow> string \<Rightarrow> rat \<Rightarrow> string \<Rightarrow> rat \<Rightarrow> MapMeClass \<Rightarrow> MapMeClass \<times> error option" where
  "SetScatterData go mode markersize markercolour opacity self =
     (let marker = \<lparr>marker_size = markersize, marker_color = markercolour,
                     marker_opacity = opacity\<rparr>;
          built =
            and_then (getitem (data self) ''latitudeE7'') (\<lambda>lat.
            and_then (getitem (data self) ''longitudeE7'') (\<lambda>lon.
            and_then (getitem (data self) ''timestamp_string'') (\<lambda>label.
              let scatter = \<lparr>scatter_lat = lat, scatter_lon = lon, scatter_mode = mode,
                              scatter_text = label, scatter_marker = marker\<rparr>
              in if Scattermapbox_accepts go scatter then Inr scatter else Inl PlotlyError)))
      in case built of
           Inl e \<Rightarrow> (self, Some e)
         | Inr scatter \<Rightarrow> (self\<lparr>scatterdata := Some scatter\<rparr>, None))"

text \<open>
  \<^verbatim>\<open>int(len(start_lats)/2)\<close> divides in double arithmetic and truncates; for a length, which
  is far below \<open>2 ^ 53\<close>, that is \<open>len div 2\<close>.
\<close>

definition SetLayout ::
  "plotly \<Rightarrow> int \<Rightarrow> int \<Rightarrow> string \<Rightarrow> string option \<Rightarrow> MapMeClass \<Rightarrow> MapMeClass \<times> error option" where
  "SetLayout go height' width' style' mapbox_access_token self =
     (let built =
            and_then (getitem (data self) ''latitudeE7'') (\<lambda>lat.
            and_then (getitem (data self) ''longitudeE7'') (\<lambda>lon.
              let start_lats = col_cells lat;
                  start_longs = col_cells lon
              in
            and_then (np_index start_lats (length start_lats div 2)) (\<lambda>clat.
            and_then (np_index start_longs (length start_longs div 2)) (\<lambda>clon.
              let center_dict = \<lparr>center_lat = clat, center_lon = clon\<rparr>;
                  mapbox_dict = \<lparr>accesstoken = mapbox_access_token, bearing = 0,
                                  center = center_dict, pitch = 0, zoom = 7, style = style'\<rparr>;
                  layout_dict = \<lparr>autosize = True, height = height', width = width',
                                  hovermode = ''closest'', mapbox = mapbox_dict\<rparr>
              in if Layout_accepts go layout_dict then Inr layout_dict else Inl PlotlyError))))
      in case built of
           Inl e \<Rightarrow> (self, Some e)
         | Inr layout_dict \<Rightarrow> (self\<lparr>layout := Some layout_dict\<rparr>, None))"

text \<open>Reading an attribute that has not been set raises \<^verbatim>\<open>AttributeError\<close>.\<close>

definition getattr :: "'a option \<Rightarrow> string \<Rightarrow> error + 'a" where
  "getattr attr name = (case attr of None \<Rightarrow> Inl (AttributeError name) | Some x \<Rightarrow> Inr x)"

definition PlotMap ::
  "plotly \<Rightarrow> string option \<Rightarrow> string \<Rightarrow> rat \<Rightarrow> string \<Rightarrow> rat \<Rightarrow> int \<Rightarrow> int \<Rightarrow> string \<Rightarrow>
   string option \<Rightarrow> (string \<times> string) list \<Rightarrow> MapMeClass \<Rightarrow> MapMeClass \<times> (error + figure)" where
  "PlotMap go mapbox_access_token mode markersize markercolour opacity height' width' style'
     renderer kwargs self =
     (case SetScatterData go mode markersize markercolour opacity self of
        (self1, Some e) \<Rightarrow> (self1, Inl e)
      | (self1, None) \<Rightarrow>
          (case SetLayout go height' width' style' mapbox_access_token self1 of
             (self2, Some e) \<Rightarrow> (self2, Inl e)
           | (self2, None) \<Rightarrow>
               (case and_then (getattr (scatterdata self2) ''scatterdata'') (\<lambda>trace.
                     and_then (getattr (layout self2) ''layout'') (\<lambda>lay.
                       let fig0 = \<lparr>traces = [], fig_layout = None\<rparr>;
                           fig1 = fig0\<lparr>traces := traces fig0 @ [trace]\<rparr>;
                           fig2 = fig1\<lparr>fig_layout := Some lay\<rparr>
                       in if show_accepts go fig2 renderer kwargs then Inr fig2
                          else Inl PlotlyError)) of
                  Inl e \<Rightarrow> (self2, Inl e)
                | Inr fig2 \<Rightarrow> (self2\<lparr>fig := Some fig2\<rparr>, Inr fig2))))"

section \<open>Example objects\<close>

text \<open>
  A five-record export and the frames the three steps of the constructor make of it. The
  first record is written as the export writes it (the timestamp a string, a member the
  program does not use); the others have their members in another order.
  \<open>example_filtered\<close> is the object after \<^verbatim>\<open>Filter\<close> has dropped the middle row, and
  \<open>example_empty\<close> the object after a filter that keeps no row.
\<close>

definition example_file :: json_file where
  "example_file = Document [(''locations'',
     [[(''timestampMs'', JNumStr 1609459200000), (''latitudeE7'', JInt 377749000),
       (''longitudeE7'', JInt (- 1224194000)), (''accuracy'', JInt 5)],
      [(''timestampMs'', JInt 1582934399999), (''latitudeE7'', JInt 3),
       (''longitudeE7'', JInt 4)],
      [(''latitudeE7'', JInt 10000000), (''longitudeE7'', JInt 20000000),
       (''timestampMs'', JInt 0)],
      [(''latitudeE7'', JInt (- 900000000)), (''longitudeE7'', JInt 1800000000),
       (''timestampMs'', JInt (- 1))],
      [(''latitudeE7'', JInt 0), (''longitudeE7'', JInt 0),
       (''timestampMs'', JNumStr 951782400000)]])]"

definition example_raw :: DataFrame where
  "example_raw =
     \<lparr>index = [0, 1, 2, 3, 4],
      columns =
        [(''latitudeE7'', RawCol
           [Some (JInt 377749000), Some (JInt 3), Some (JInt 10000000),
            Some (JInt (- 900000000)), Some (JInt 0)]),
         (''longitudeE7'', RawCol
           [Some (JInt (- 1224194000)), Some (JInt 4), Some (JInt 20000000),
            Some (JInt 1800000000), Some (JInt 0)]),
         (''timestampMs'', RawCol
           [Some (JNumStr 1609459200000), Some (JInt 1582934399999), Some (JInt 0),
            Some (JInt (- 1)), Some (JNumStr 951782400000)])]\<rparr>"

definition example_timed :: DataFrame where
  "example_timed =
     \<lparr>index = [0, 1, 2, 3, 4],
      columns =
        [(''latitudeE7'', RawCol
           [Some (JInt 377749000), Some (JInt 3), Some (JInt 10000000),
            Some (JInt (- 900000000)), Some (JInt 0)]),
         (''longitudeE7'', RawCol
           [Some (JInt (- 1224194000)), Some (JInt 4), Some (JInt 20000000),
            Some (JInt 1800000000), Some (JInt 0)]),
         (''timestampMs'', RawCol
           [Some (JNumStr 1609459200000), Some (JInt 1582934399999), Some (JInt 0),
            Some (JInt (- 1)), Some (JNumStr 951782400000)]),
         (''year'', IntCol [2021, 2020, 1970, 1969, 2000]),
         (''month'', IntCol [1, 2, 1, 12, 2]),
         (''day'', IntCol [1, 28, 1, 31, 29]),
         (''hour'', IntCol [0, 23, 0, 23, 0]),
         (''min'', IntCol [0, 59, 0, 59, 0]),
         (''sec'', IntCol [0, 59, 0, 59, 0]),
         (''timestamp_fixed'', DatetimeCol
           [Some 1609459200000, Some 1582934399999, Some 0,
            Some ((- 1)), Some 951782400000]),
         (''timestamp_string'', StrCol
           [''1/1/2021 0:0'', ''2/28/2020 23:59'', ''1/1/1970 0:0'',
            ''12/31/1969 23:59'', ''2/29/2000 0:0''])]\<rparr>"

definition example_data :: DataFrame where
  "example_data =
     \<lparr>index = [0, 1, 2, 3, 4],
      columns =
        [(''latitudeE7'', FloatCol
           [Some (Float64 5316344548873680 (- 47)), Some (Float64 5666839779443574 (- 74)),
            Some (Float64 4503599627370496 (- 52)), Some (Float64 (- 6333186975989760) (- 46)),
            Some (Float64 0 (- 1074))]),
         (''longitudeE7'', FloatCol
           [Some (Float64 (- 8614499440983120) (- 46)), Some (Float64 7555786372591432 (- 74)),
            Some (Float64 4503599627370496 (- 51)), Some (Float64 6333186975989760 (- 45)),
            Some (Float64 0 (- 1074))]),
         (''timestampMs'', RawCol
           [Some (JNumStr 1609459200000), Some (JInt 1582934399999), Some (JInt 0),
            Some (JInt (- 1)), Some (JNumStr 951782400000)]),
         (''year'', IntCol [2021, 2020, 1970, 1969, 2000]),
         (''month'', IntCol [1, 2, 1, 12, 2]),
         (''day'', IntCol [1, 28, 1, 31, 29]),
         (''hour'', IntCol [0, 23, 0, 23, 0]),
         (''min'', IntCol [0, 59, 0, 59, 0]),
         (''sec'', IntCol [0, 59, 0, 59, 0]),
         (''timestamp_fixed'', DatetimeCol
           [Some 1609459200000, Some 1582934399999, Some 0,
            Some ((- 1)), Some 951782400000]),
         (''timestamp_string'', StrCol
           [''1/1/2021 0:0'', ''2/28/2020 23:59'', ''1/1/1970 0:0'',
            ''12/31/1969 23:59'', ''2/29/2000 0:0''])]\<rparr>"

definition example_self :: MapMeClass where
  "example_self = \<lparr>data = example_data, fig = None, originaldata = example_data,
                    scatterdata = None, layout = None\<rparr>"

definition example_filtered :: MapMeClass where
  "example_filtered = example_self\<lparr>data :=
     \<lparr>index = [0, 1, 3, 4],
      columns =
        [(''latitudeE7'', FloatCol
           [Some (Float64 5316344548873680 (- 47)), Some (Float64 5666839779443574 (- 74)),
            Some (Float64 (- 6333186975989760) (- 46)), Some (Float64 0 (- 1074))]),
         (''longitudeE7'', FloatCol
           [Some (Float64 (- 8614499440983120) (- 46)), Some (Float64 7555786372591432 (- 74)),
            Some (Float64 6333186975989760 (- 45)), Some (Float64 0 (- 1074))]),
         (''timestampMs'', RawCol
           [Some (JNumStr 1609459200000), Some (JInt 1582934399999), Some (JInt (- 1)),
            Some (JNumStr 951782400000)]),
         (''year'', IntCol [2021, 2020, 1969, 2000]),
         (''month'', IntCol [1, 2, 12, 2]),
         (''day'', IntCol [1, 28, 31, 29]),
         (''hour'', IntCol [0, 23, 23, 0]),
         (''min'', IntCol [0, 59, 59, 0]),
         (''sec'', IntCol [0, 59, 59, 0]),
         (''timestamp_fixed'', DatetimeCol
           [Some 1609459200000, Some 1582934399999, Some ((- 1)),
            Some 951782400000]),
         (''timestamp_string'', StrCol
           [''1/1/2021 0:0'', ''2/28/2020 23:59'', ''12/31/1969 23:59'',
            ''2/29/2000 0:0''])]\<rparr>\<rparr>"

definition example_empty :: MapMeClass where
  "example_empty = example_self\<lparr>data :=
     \<lparr>index = [],
      columns =
        [(''latitudeE7'', FloatCol
           []),
         (''longitudeE7'', FloatCol
           []),
         (''timestampMs'', RawCol
           []),
         (''year'', IntCol []),
         (''month'', IntCol []),
         (''day'', IntCol []),
         (''hour'', IntCol []),
         (''min'', IntCol []),
         (''sec'', IntCol []),
         (''timestamp_fixed'', DatetimeCol
           []),
         (''timestamp_string'', StrCol
           [])]\<rparr>\<rparr>"

text \<open>A plotly that accepts whatever it is given.\<close>

definition plotly_accepting :: plotly where
  "plotly_accepting = \<lparr>Scattermapbox_accepts = (\<lambda>scatter. True),
                         Layout_accepts = (\<lambda>layout_dict. True),
                         show_accepts = (\<lambda>figure renderer kwargs. True)\<rparr>"

text \<open>
  Notions used to state the properties of the loader: the decoded records of a file (none
  when the file has no \<^verbatim>\<open>"locations"\<close>), a member name that occurs in some record, and a
  file of the expected shape: its top-level arrays have one length, \<^verbatim>\<open>"locations"\<close> is among
  them, and every record has the three members the program reads.
\<close>

definition locations :: "json_file \<Rightarrow> jobject list" where
  "locations filepath =
     (case filepath of
        Malformed \<Rightarrow> []
      | Document members \<Rightarrow>
          (case map_of (py_dict members) ''locations'' of
             None \<Rightarrow> []
           | Some recs \<Rightarrow> map py_dict recs))"

definition well_formed :: "json_file \<Rightarrow> bool" where
  "well_formed filepath =
     (case filepath of
        Malformed \<Rightarrow> False
      | Document members \<Rightarrow>
          same_length (map snd (py_dict members)) \<and>
          map_of (py_dict members) ''locations'' \<noteq> None \<and>
          list_all (\<lambda>d. map_of d ''latitudeE7'' \<noteq> None \<and> map_of d ''longitudeE7'' \<noteq> None \<and>
                        map_of d ''timestampMs'' \<noteq> None)
            (locations filepath))"

definition has_member :: "jobject list \<Rightarrow> string \<Rightarrow> bool" where
  "has_member recs k = list_ex (\<lambda>d. map_of d k \<noteq> None) recs"

text \<open>The concatenation that builds \<^verbatim>\<open>timestamp_string\<close>, named for the proofs.\<close>

definition derived_string :: "string list \<Rightarrow> string list \<Rightarrow> string list \<Rightarrow> string list \<Rightarrow> string list \<Rightarrow> string list" where
  "derived_string month day year hour minute = add_col (add_str (add_col (add_str (add_col (add_str (add_col
                 (add_str month ''/'') day) ''/'') year) '' '') hour) '':'') minute"

text \<open>
  The timestamp of a record when it is a number in the range of \<^verbatim>\<open>datetime64[ns]\<close>, as
  milliseconds; \<open>None\<close> for a missing, out-of-range or non-numeric one.
\<close>

fun cell_ms :: "jvalue option \<Rightarrow> int option" where
  "cell_ms None = None"
| "cell_ms (Some (JInt v)) = (if ms_in_bounds (sint v) then Some (sint v) else None)"
| "cell_ms (Some (JNumStr v)) = (if ms_in_bounds (sint v) then Some (sint v) else None)"
| "cell_ms (Some JText) = None"

text \<open>
  What the coordinate fix makes of a raw value: the value, converted to double, divided by
  \<open>10000000\<close> in double arithmetic. A gap stays a gap (and a string never gets this far:
  the division raises \<^verbatim>\<open>TypeError\<close>).
\<close>

definition fixed :: "64 word \<Rightarrow> float64" where
  "fixed v = float_truediv (int_to_float64 (sint v)) 10000000"

fun fixed_cell :: "jvalue option \<Rightarrow> float64 option" where
  "fixed_cell (Some (JInt v)) = Some (fixed v)"
| "fixed_cell c = None"

text \<open>
  A two-record export whose second record has no timestamp, and the frames the three steps
  of the constructor make of it.
\<close>

definition gap_file :: json_file where
  "gap_file = Document [(''locations'',
     [[(''timestampMs'', JInt 1609459200000), (''latitudeE7'', JInt 377749000),
       (''longitudeE7'', JInt (- 1224194000))],
      [(''latitudeE7'', JInt 3), (''longitudeE7'', JInt 4)]])]"

definition gap_raw :: DataFrame where
  "gap_raw =
     \<lparr>index = [0, 1],
      columns =
        [(''latitudeE7'', RawCol [Some (JInt 377749000), Some (JInt 3)]),
         (''longitudeE7'', RawCol [Some (JInt (- 1224194000)), Some (JInt 4)]),
         (''timestampMs'', RawCol [Some (JInt 1609459200000), None])]\<rparr>"

definition gap_timed :: DataFrame where
  "gap_timed =
     \<lparr>index = [0, 1],
      columns =
        [(''latitudeE7'', RawCol [Some (JInt 377749000), Some (JInt 3)]),
         (''longitudeE7'', RawCol [Some (JInt (- 1224194000)), Some (JInt 4)]),
         (''timestampMs'', RawCol [Some (JInt 1609459200000), None]),
         (''year'', FloatCol [Some (Float64 8888451998941184 (- 42)), None]),
         (''month'', FloatCol [Some (Float64 4503599627370496 (- 52)), None]),
         (''day'', FloatCol [Some (Float64 4503599627370496 (- 52)), None]),
         (''hour'', FloatCol [Some (Float64 0 (- 1074)), None]),
         (''min'', FloatCol [Some (Float64 0 (- 1074)), None]),
         (''sec'', FloatCol [Some (Float64 0 (- 1074)), None]),
         (''timestamp_fixed'', DatetimeCol [Some 1609459200000, None]),
         (''timestamp_string'', StrCol [''1.0/1.0/2021.0 0.0:0.0'', ''nan/nan/nan nan:nan''])]\<rparr>"

definition gap_data :: DataFrame where
  "gap_data =
     \<lparr>index = [0, 1],
      columns =
        [(''latitudeE7'', FloatCol [Some (Float64 5316344548873680 (- 47)),
                                   Some (Float64 5666839779443574 (- 74))]),
         (''longitudeE7'', FloatCol [Some (Float64 (- 8614499440983120) (- 46)),
                                    Some (Float64 7555786372591432 (- 74))]),
         (''timestampMs'', RawCol [Some (JInt 1609459200000), None]),
         (''year'', FloatCol [Some (Float64 8888451998941184 (- 42)), None]),
         (''month'', FloatCol [Some (Float64 4503599627370496 (- 52)), None]),
         (''day'', FloatCol [Some (Float64 4503599627370496 (- 52)), None]),
         (''hour'', FloatCol [Some (Float64 0 (- 1074)), None]),
         (''min'', FloatCol [Some (Float64 0 (- 1074)), None]),
         (''sec'', FloatCol [Some (Float64 0 (- 1074)), None]),
         (''timestamp_fixed'', DatetimeCol [Some 1609459200000, None]),
         (''timestamp_string'', StrCol [''1.0/1.0/2021.0 0.0:0.0'', ''nan/nan/nan nan:nan''])]\<rparr>"

definition gap_self :: MapMeClass where
  "gap_self = \<lparr>data = gap_data, fig = None, originaldata = gap_data,
                scatterdata = None, layout = None\<rparr>"






section \<open>The example, step by step\<close>

lemma ReadJson_example: "ReadJson example_file = Inr example_raw"
  by code_simp

lemma DeriveTimeIntervals_example: "DeriveTimeIntervals example_raw = Inr example_timed"
  by code_simp

lemma FixLatLong_example: "FixLatLong example_timed = Inr example_data"
  by code_simp

lemma init_example: "MapMeClass_init example_file = Inr example_self"
  by (simp add: MapMeClass_init_def and_then_def ReadJson_example
        DeriveTimeIntervals_example FixLatLong_example example_self_def)

lemma Filter_example:
  "Filter (BoolArray [True, True, False, True, True]) example_self = (example_filtered, None)"
  by code_simp

lemma Filter_example_empty:
  "Filter (BoolSeries [(0, False), (1, False), (3, False), (4, False)]) example_filtered =
     (example_empty, None)"
  by code_simp

section \<open>Filtering and clearing\<close>

lemma Filter_originaldata: "originaldata (fst (Filter key self)) = originaldata self"
  by (simp add: Filter_def split: sum.splits)

lemma Filters_originaldata: "originaldata (fst (Filters keys self)) = originaldata self"
proof (induction keys arbitrary: self)
  case Nil
  show ?case by simp
next
  case (Cons key keys)
  show ?case
  proof (cases "Filter key self")
    case (Pair self1 r)
    have o: "originaldata self1 = originaldata self"
      using Filter_originaldata [of key self] Pair by simp
    show ?thesis
    proof (cases r)
      case None
      then show ?thesis using Pair Cons.IH [of self1] o by simp
    next
      case (Some e)
      then show ?thesis using Pair o by simp
    qed
  qed
qed

lemma init_originaldata:
  "MapMeClass_init filepath = Inr self \<Longrightarrow> originaldata self = data self"
  by (auto simp: MapMeClass_init_def and_then_def split: sum.splits)

text \<open>
  Claim C9. \<^verbatim>\<open>ClearFilter\<close> is idempotent: on every object, calling it twice leaves the same
  object as calling it once, and the current view is then the snapshot \<^verbatim>\<open>_originaldata\<close>.
\<close>

theorem ClearFilter_idempotent:
  "ClearFilter (ClearFilter self) = ClearFilter self \<and>
   data (ClearFilter self) = originaldata self \<and>
   data (ClearFilter (ClearFilter self)) = originaldata self"
  by (simp add: ClearFilter_def)

text \<open>
  Claim C3. For every constructed object and every sequence of \<^verbatim>\<open>Filter\<close> calls (run to its
  end, or up to the call that raises), \<^verbatim>\<open>ClearFilter\<close> afterwards makes the current view the
  frame the constructor produced: the same rows, in the same order, with the same cells.
  The snapshot itself is never changed by filtering.
\<close>

theorem ClearFilter_round_trip:
  "MapMeClass_init filepath = Inr self \<Longrightarrow>
   data (ClearFilter (fst (Filters keys self))) = data self \<and>
   originaldata (fst (Filters keys self)) = data self"
  using init_originaldata [of filepath self] Filters_originaldata [of keys self]
  by (simp add: ClearFilter_def)

lemma Filters_example:
  "Filters [BoolArray [True, True, False, True, True],
            BoolSeries [(0, False), (1, False), (3, False), (4, False)]] example_self =
     (example_empty, None)"
  by (simp only: Filters.simps Filter_example Filter_example_empty prod.case option.case)

theorem ClearFilter_round_trip_witness:
  "MapMeClass_init example_file = Inr example_self \<and>
   Filters [BoolArray [True, True, False, True, True],
            BoolSeries [(0, False), (1, False), (3, False), (4, False)]] example_self =
     (example_empty, None) \<and>
   data (ClearFilter example_empty) = data example_self \<and>
   originaldata example_empty = data example_self"
  using ClearFilter_round_trip [OF init_example,
          of "[BoolArray [True, True, False, True, True],
               BoolSeries [(0, False), (1, False), (3, False), (4, False)]]"] init_example
  unfolding Filters_example
  by simp

lemma those_eq_None: "those xs = None \<longleftrightarrow> None \<in> set xs"
  by (induction xs) (auto split: option.splits)

lemma those_length: "those xs = Some ys \<Longrightarrow> length ys = length xs"
  by (induction xs arbitrary: ys) (auto split: option.splits)

lemma Filter_BoolArray_mismatch:
  "length bs \<noteq> length (index (data self)) \<Longrightarrow>
   Filter (BoolArray bs) self = (self, Some IndexError)"
  by (simp add: Filter_def df_loc_def and_then_def check_bool_indexer_def is_bool_indexer_def)

lemma Filter_BoolList_mismatch:
  "bs \<noteq> [] \<Longrightarrow> length bs \<noteq> length (index (data self)) \<Longrightarrow>
   Filter (BoolList bs) self = (self, Some IndexError)"
  by (simp add: Filter_def df_loc_def and_then_def check_bool_indexer_def is_bool_indexer_def)

lemma Filter_empty_list:
  "snd (Filter (BoolList []) self) = None \<and> index (data (fst (Filter (BoolList []) self))) = []"
  by (simp add: Filter_def df_loc_def is_bool_indexer_def)

lemma Filter_atomic: "snd (Filter key self) \<noteq> None \<Longrightarrow> fst (Filter key self) = self"
  by (simp add: Filter_def split: sum.splits)

lemma map_of_None_in_labels:
  "None \<in> set (map (map_of s) idx) \<longleftrightarrow> \<not> list_all (\<lambda>l. l \<in> fst ` set s) idx"
proof -
  have "None \<in> set (map (map_of s) idx) \<longleftrightarrow> (\<exists>l\<in>set idx. map_of s l = None)"
    by (simp add: image_iff) metis
  also have "\<dots> \<longleftrightarrow> (\<exists>l\<in>set idx. l \<notin> fst ` set s)"
    by (simp add: map_of_eq_None_iff)
  also have "\<dots> \<longleftrightarrow> \<not> list_all (\<lambda>l. l \<in> fst ` set s) idx"
    by (simp add: list_all_iff)
  finally show ?thesis .
qed

lemma Filter_BoolSeries_aligned:
  "distinct (map fst s) \<Longrightarrow> list_all (\<lambda>l. l \<in> fst ` set s) (index (data self)) \<Longrightarrow>
   snd (Filter (BoolSeries s) self) = None"
  using map_of_None_in_labels [of s "index (data self)"]
    those_eq_None [of "map (map_of s) (index (data self))"]
  by (auto simp: Filter_def df_loc_def and_then_def check_bool_indexer_def is_bool_indexer_def
      split: option.splits sum.splits)

lemma Filter_BoolSeries_unaligned:
  "distinct (map fst s) \<Longrightarrow> \<not> list_all (\<lambda>l. l \<in> fst ` set s) (index (data self)) \<Longrightarrow>
   Filter (BoolSeries s) self = (self, Some IndexingError)"
proof -
  assume d: "distinct (map fst s)"
    and n: "\<not> list_all (\<lambda>l. l \<in> fst ` set s) (index (data self))"
  have ne: "map fst s \<noteq> index (data self)"
  proof
    assume "map fst s = index (data self)"
    then have "list_all (\<lambda>l. l \<in> fst ` set s) (index (data self))"
      by (metis list_all_iff list.set_map)
    with n show False by simp
  qed
  have "those (map (map_of s) (index (data self))) = None"
    using n map_of_None_in_labels [of s "index (data self)"] those_eq_None by blast
  with d ne show ?thesis
    by (simp add: Filter_def df_loc_def and_then_def check_bool_indexer_def is_bool_indexer_def)
qed

text \<open>
  Claim C4, amended. A numpy array of booleans, or a Python list of booleans that is not
  empty, whose length differs from the length of the current view makes \<^verbatim>\<open>Filter\<close> raise
  \<^verbatim>\<open>IndexError\<close>. The empty list is no mask for pandas: \<^verbatim>\<open>Filter([])\<close> raises nothing and
  leaves a view without rows. A boolean Series is aligned with the view by label, whatever
  its length: when its labels are distinct, the call succeeds if every row label of the
  view occurs among them and raises pandas' \<^verbatim>\<open>IndexingError\<close> otherwise. Every call that
  raises leaves the object, and so the current view, as it was.
\<close>

theorem Filter_mask_mismatch:
  "(length bs \<noteq> length (index (data self)) \<longrightarrow>
      Filter (BoolArray bs) self = (self, Some IndexError)) \<and>
   (bs \<noteq> [] \<and> length bs \<noteq> length (index (data self)) \<longrightarrow>
      Filter (BoolList bs) self = (self, Some IndexError)) \<and>
   snd (Filter (BoolList []) self) = None \<and>
   index (data (fst (Filter (BoolList []) self))) = [] \<and>
   (snd (Filter key self) \<noteq> None \<longrightarrow> fst (Filter key self) = self) \<and>
   (distinct (map fst s) \<and> list_all (\<lambda>l. l \<in> fst ` set s) (index (data self)) \<longrightarrow>
      snd (Filter (BoolSeries s) self) = None) \<and>
   (distinct (map fst s) \<and> \<not> list_all (\<lambda>l. l \<in> fst ` set s) (index (data self)) \<longrightarrow>
      Filter (BoolSeries s) self = (self, Some IndexingError))"
  using Filter_BoolArray_mismatch [of bs self] Filter_BoolList_mismatch [of bs self]
    Filter_empty_list [of self] Filter_atomic [of key self]
    Filter_BoolSeries_aligned [of s self] Filter_BoolSeries_unaligned [of s self]
  by blast

lemma index_example_filtered: "index (data example_filtered) = [0, 1, 3, 4]"
  by (simp add: example_filtered_def)

theorem Filter_mask_mismatch_witness:
  "length [True, False, True, True, True] \<noteq> length (index (data example_filtered)) \<and>
   Filter (BoolArray [True, False, True, True, True]) example_filtered =
     (example_filtered, Some IndexError) \<and>
   [True, False, True, True, True] \<noteq> [] \<and>
   Filter (BoolList [True, False, True, True, True]) example_filtered =
     (example_filtered, Some IndexError) \<and>
   index (data example_filtered) \<noteq> [] \<and>
   snd (Filter (BoolList []) example_filtered) = None \<and>
   index (data (fst (Filter (BoolList []) example_filtered))) = [] \<and>
   snd (Filter (BoolArray [True, False, True, True, True]) example_filtered) \<noteq> None \<and>
   fst (Filter (BoolArray [True, False, True, True, True]) example_filtered) =
     example_filtered \<and>
   distinct (map fst [(0 :: nat, True), (1, False), (2, True), (3, True), (4, True)]) \<and>
   list_all (\<lambda>l. l \<in> fst ` set [(0 :: nat, True), (1, False), (2, True), (3, True), (4, True)])
     (index (data example_filtered)) \<and>
   snd (Filter (BoolSeries [(0, True), (1, False), (2, True), (3, True), (4, True)])
          example_filtered) = None \<and>
   distinct (map fst [(0 :: nat, True), (1, False), (2, True), (3, True)]) \<and>
   \<not> list_all (\<lambda>l. l \<in> fst ` set [(0 :: nat, True), (1, False), (2, True), (3, True)])
       (index (data example_filtered)) \<and>
   Filter (BoolSeries [(0, True), (1, False), (2, True), (3, True)]) example_filtered =
     (example_filtered, Some IndexingError)"
  using Filter_mask_mismatch [of "[True, False, True, True, True]" example_filtered
          "BoolArray [True, False, True, True, True]"
          "[(0, True), (1, False), (2, True), (3, True), (4, True)]"]
        Filter_mask_mismatch [of "[True, False, True, True, True]" example_filtered
          "BoolArray [True, False, True, True, True]"
          "[(0, True), (1, False), (2, True), (3, True)]"]
  by (simp add: index_example_filtered)

text \<open>
  The claim as stated fails: on the four-row view of the example, a Series with the five
  labels of the loaded frame has another length than the view, and the call succeeds and
  narrows the view to three rows.
\<close>

theorem Filter_longer_Series_counterexample:
  "length [(0 :: nat, True), (1, False), (2, True), (3, True), (4, True)] \<noteq>
     length (index (data example_filtered)) \<and>
   snd (Filter (BoolSeries [(0, True), (1, False), (2, True), (3, True), (4, True)])
          example_filtered) = None \<and>
   index (data (fst (Filter (BoolSeries [(0, True), (1, False), (2, True), (3, True), (4, True)])
                       example_filtered))) = [0, 3, 4]"
  by code_simp

section \<open>The presenter\<close>

lemma length_col_cells: "length (col_cells c) = col_len c"
  by (cases c) simp_all

lemma SetLayout_empty:
  "getitem (data self) ''latitudeE7'' = Inr lat \<Longrightarrow>
   getitem (data self) ''longitudeE7'' = Inr lon \<Longrightarrow> col_len lat = 0 \<Longrightarrow>
   SetLayout go h w st tok self = (self, Some IndexError)"
  by (simp add: SetLayout_def and_then_def np_index_def length_col_cells Let_def)

lemma SetLayout_nonempty:
  "getitem (data self) ''latitudeE7'' = Inr lat \<Longrightarrow>
   getitem (data self) ''longitudeE7'' = Inr lon \<Longrightarrow>
   col_len lat = n \<Longrightarrow> col_len lon = n \<Longrightarrow> 0 < n \<Longrightarrow>
   SetLayout go h w st tok self =
     (if Layout_accepts go
           \<lparr>autosize = True, height = h, width = w, hovermode = ''closest'',
              mapbox = \<lparr>accesstoken = tok, bearing = 0,
                         center = \<lparr>center_lat = col_cells lat ! (n div 2),
                                    center_lon = col_cells lon ! (n div 2)\<rparr>,
                         pitch = 0, zoom = 7, style = st\<rparr>\<rparr>
      then (self\<lparr>layout := Some
           \<lparr>autosize = True, height = h, width = w, hovermode = ''closest'',
              mapbox = \<lparr>accesstoken = tok, bearing = 0,
                         center = \<lparr>center_lat = col_cells lat ! (n div 2),
                                    center_lon = col_cells lon ! (n div 2)\<rparr>,
                         pitch = 0, zoom = 7, style = st\<rparr>\<rparr>\<rparr>, None)
      else (self, Some PlotlyError))"
  by (simp add: SetLayout_def and_then_def np_index_def length_col_cells Let_def)

lemma PlotMap_empty:
  "getitem (data self) ''latitudeE7'' = Inr lat \<Longrightarrow>
   getitem (data self) ''longitudeE7'' = Inr lon \<Longrightarrow>
   getitem (data self) ''timestamp_string'' = Inr label \<Longrightarrow> col_len lat = 0 \<Longrightarrow>
   PlotMap go tok mode markersize markercolour opacity h w st renderer kwargs self =
     (if Scattermapbox_accepts go
           \<lparr>scatter_lat = lat, scatter_lon = lon, scatter_mode = mode, scatter_text = label,
              scatter_marker = \<lparr>marker_size = markersize, marker_color = markercolour,
                                 marker_opacity = opacity\<rparr>\<rparr>
      then (self\<lparr>scatterdata := Some
           \<lparr>scatter_lat = lat, scatter_lon = lon, scatter_mode = mode, scatter_text = label,
              scatter_marker = \<lparr>marker_size = markersize, marker_color = markercolour,
                                 marker_opacity = opacity\<rparr>\<rparr>\<rparr>, Inl IndexError)
      else (self, Inl PlotlyError))"
  by (simp add: PlotMap_def SetScatterData_def SetLayout_def and_then_def np_index_def
        length_col_cells Let_def getitem_def split: option.splits)

text \<open>
  Claim C7. For a current view of \<open>n > 0\<close> rows, \<^verbatim>\<open>_SetLayout\<close> centres the map on the
  latitude and longitude cells at position \<open>n div 2\<close> of the view, the coordinates of one
  record and not a mean over the records; the rest of the layout is as the source fixes it.
  (plotly may still reject the layout, and then nothing is set.) The witness shows a view of
  five rows centred on its row 2 and a view of four rows centred on its row 2.
\<close>

theorem SetLayout_center:
  assumes "getitem (data self) ''latitudeE7'' = Inr lat"
    and "getitem (data self) ''longitudeE7'' = Inr lon"
    and "col_len lat = n" and "col_len lon = n" and "0 < n"
  shows "SetLayout go h w st tok self =
     (if Layout_accepts go
           \<lparr>autosize = True, height = h, width = w, hovermode = ''closest'',
              mapbox = \<lparr>accesstoken = tok, bearing = 0,
                         center = \<lparr>center_lat = col_cells lat ! (n div 2),
                                    center_lon = col_cells lon ! (n div 2)\<rparr>,
                         pitch = 0, zoom = 7, style = st\<rparr>\<rparr>
      then (self\<lparr>layout := Some
           \<lparr>autosize = True, height = h, width = w, hovermode = ''closest'',
              mapbox = \<lparr>accesstoken = tok, bearing = 0,
                         center = \<lparr>center_lat = col_cells lat ! (n div 2),
                                    center_lon = col_cells lon ! (n div 2)\<rparr>,
                         pitch = 0, zoom = 7, style = st\<rparr>\<rparr>\<rparr>, None)
      else (self, Some PlotlyError))"
  using assms by (rule SetLayout_nonempty)

lemma getitem_example_self:
  "getitem (data example_self) ''latitudeE7'' =
     Inr (FloatCol [Some (Float64 5316344548873680 (- 47)), Some (Float64 5666839779443574 (- 74)),
                    Some (Float64 4503599627370496 (- 52)),
                    Some (Float64 (- 6333186975989760) (- 46)), Some (Float64 0 (- 1074))])"
  "getitem (data example_self) ''longitudeE7'' =
     Inr (FloatCol [Some (Float64 (- 8614499440983120) (- 46)),
                    Some (Float64 7555786372591432 (- 74)),
                    Some (Float64 4503599627370496 (- 51)),
                    Some (Float64 6333186975989760 (- 45)), Some (Float64 0 (- 1074))])"
  by (simp_all add: getitem_def example_self_def example_data_def)

lemma getitem_example_filtered:
  "getitem (data example_filtered) ''latitudeE7'' =
     Inr (FloatCol [Some (Float64 5316344548873680 (- 47)), Some (Float64 5666839779443574 (- 74)),
                    Some (Float64 (- 6333186975989760) (- 46)), Some (Float64 0 (- 1074))])"
  "getitem (data example_filtered) ''longitudeE7'' =
     Inr (FloatCol [Some (Float64 (- 8614499440983120) (- 46)),
                    Some (Float64 7555786372591432 (- 74)),
                    Some (Float64 6333186975989760 (- 45)), Some (Float64 0 (- 1074))])"
  by (simp_all add: getitem_def example_filtered_def)

lemma getitem_example_empty:
  "getitem (data example_empty) ''latitudeE7'' = Inr (FloatCol [])"
  "getitem (data example_empty) ''longitudeE7'' = Inr (FloatCol [])"
  "getitem (data example_empty) ''timestamp_string'' = Inr (StrCol [])"
  by (simp_all add: getitem_def example_empty_def)

theorem SetLayout_center_witness:
  "length (index (data example_self)) = 5 \<and>
   SetLayout plotly_accepting 800 1200 ''outdoors'' (Some ''token'') example_self =
     (example_self\<lparr>layout := Some
        \<lparr>autosize = True, height = 800, width = 1200, hovermode = ''closest'',
           mapbox = \<lparr>accesstoken = Some ''token'', bearing = 0,
                      center = \<lparr>center_lat = FloatCell (Some (Float64 4503599627370496 (- 52))),
                                 center_lon = FloatCell (Some (Float64 4503599627370496 (- 51)))\<rparr>,
                      pitch = 0, zoom = 7, style = ''outdoors''\<rparr>\<rparr>\<rparr>, None) \<and>
   length (index (data example_filtered)) = 4 \<and>
   SetLayout plotly_accepting 800 1200 ''outdoors'' (Some ''token'') example_filtered =
     (example_filtered\<lparr>layout := Some
        \<lparr>autosize = True, height = 800, width = 1200, hovermode = ''closest'',
           mapbox = \<lparr>accesstoken = Some ''token'', bearing = 0,
                      center = \<lparr>center_lat = FloatCell (Some (Float64 (- 6333186975989760) (- 46))),
                                 center_lon = FloatCell (Some (Float64 6333186975989760 (- 45)))\<rparr>,
                      pitch = 0, zoom = 7, style = ''outdoors''\<rparr>\<rparr>\<rparr>, None)"
  using SetLayout_center [OF getitem_example_self, of 5 plotly_accepting 800 1200
          "''outdoors''" "Some ''token''"]
        SetLayout_center [OF getitem_example_filtered, of 4 plotly_accepting 800 1200
          "''outdoors''" "Some ''token''"]
  by (simp add: plotly_accepting_def example_self_def example_data_def example_filtered_def)

text \<open>
  Claim C10. On a current view without rows, \<^verbatim>\<open>_SetLayout\<close> raises \<^verbatim>\<open>IndexError\<close> where it
  indexes the latitude array at position 0, and \<^verbatim>\<open>PlotMap\<close> returns no figure: it raises
  that \<^verbatim>\<open>IndexError\<close> once plotly has accepted the (empty) scatter trace, which is then
  already stored in \<^verbatim>\<open>self.scatterdata\<close>.
\<close>

theorem PlotMap_empty_view:
  assumes "getitem (data self) ''latitudeE7'' = Inr lat"
    and "getitem (data self) ''longitudeE7'' = Inr lon"
    and "getitem (data self) ''timestamp_string'' = Inr label"
    and "col_len lat = 0"
  shows "SetLayout go h w st tok self = (self, Some IndexError) \<and>
     PlotMap go tok mode markersize markercolour opacity h w st renderer kwargs self =
       (if Scattermapbox_accepts go
             \<lparr>scatter_lat = lat, scatter_lon = lon, scatter_mode = mode, scatter_text = label,
                scatter_marker = \<lparr>marker_size = markersize, marker_color = markercolour,
                                   marker_opacity = opacity\<rparr>\<rparr>
        then (self\<lparr>scatterdata := Some
             \<lparr>scatter_lat = lat, scatter_lon = lon, scatter_mode = mode, scatter_text = label,
                scatter_marker = \<lparr>marker_size = markersize, marker_color = markercolour,
                                   marker_opacity = opacity\<rparr>\<rparr>\<rparr>, Inl IndexError)
        else (self, Inl PlotlyError))"
  using SetLayout_empty [OF assms(1,2,4)] PlotMap_empty [OF assms] by simp

theorem PlotMap_empty_view_witness:
  "index (data example_empty) = [] \<and>
   SetLayout plotly_accepting 800 1200 ''outdoors'' (Some ''token'') example_empty =
     (example_empty, Some IndexError) \<and>
   snd (PlotMap plotly_accepting (Some ''token'') ''markers'' 10 ''rgb(255,0,0)'' (3 / 10)
          800 1200 ''outdoors'' None [] example_empty) = Inl IndexError"
  using PlotMap_empty_view [OF getitem_example_empty, of plotly_accepting 800 1200
          "''outdoors''" "Some ''token''" "''markers''" 10 "''rgb(255,0,0)''" "3 / 10" None "[]"]
  by (simp add: plotly_accepting_def example_empty_def)

section \<open>The loader\<close>

lemma set_first_seen: "set (first_seen acc ks) = set acc \<union> set ks"
  by (induction ks arbitrary: acc) auto

lemma map_of_relabel:
  "map_of (map (\<lambda>kv. (fst kv, f (snd kv))) d) k = map_option f (map_of d k)"
  by (induction d) auto

lemma map_of_map_filter:
  "map_of (List.map_filter (\<lambda>k. map_option (\<lambda>c. (k, c)) (m k)) items) k =
     (if k \<in> set items then m k else None)"
  by (induction items) (auto simp: List.map_filter_simps split: option.splits)

lemma keys_map_filter:
  "map fst (List.map_filter (\<lambda>k. map_option (\<lambda>c. (k, c)) (m k)) items) =
     filter (\<lambda>k. m k \<noteq> None) items"
  by (induction items) (auto simp: List.map_filter_simps split: option.splits)

lemma map_of_from_dict:
  "map_of (columns (DataFrame_from_dict recs)) k =
     (if has_member recs k then Some (RawCol (map (\<lambda>d. map_of d k) recs)) else None)"
proof -
  have "k \<in> set (first_seen [] (concat (map (map fst) recs))) \<longleftrightarrow> has_member recs k"
    by (auto simp: set_first_seen has_member_def list_ex_iff map_of_eq_None_iff)
  then show ?thesis
    by (simp add: DataFrame_from_dict_def map_of_map_restrict restrict_map_def)
qed

lemma ReadJson_Inr:
  "ReadJson filepath = Inr raw \<Longrightarrow>
   raw = df_filter_items (DataFrame_from_dict (locations filepath))
           [''latitudeE7'', ''longitudeE7'', ''timestampMs'']"
  by (cases filepath)
     (auto simp: ReadJson_def pd_read_json_def locations_def Let_def map_of_relabel
        split: if_splits option.splits)

lemma ReadJson_getitem:
  assumes "ReadJson filepath = Inr raw"
  shows "getitem raw k =
     (if k \<in> {''latitudeE7'', ''longitudeE7'', ''timestampMs''} \<and> has_member (locations filepath) k
      then Inr (RawCol (map (\<lambda>d. map_of d k) (locations filepath)))
      else Inl (KeyError k))"
  unfolding ReadJson_Inr [OF assms]
  by (simp add: getitem_def df_filter_items_def map_of_map_filter map_of_from_dict)

lemma ReadJson_index:
  assumes "ReadJson filepath = Inr raw"
  shows "index raw = [0..<length (locations filepath)]"
  unfolding ReadJson_Inr [OF assms]
  by (simp add: df_filter_items_def DataFrame_from_dict_def)

lemma ReadJson_columns:
  assumes "ReadJson filepath = Inr raw"
  shows "map fst (columns raw) =
     filter (has_member (locations filepath)) [''latitudeE7'', ''longitudeE7'', ''timestampMs'']"
  unfolding ReadJson_Inr [OF assms]
  by (simp add: df_filter_items_def keys_map_filter map_of_from_dict)

lemma keys_fold_update:
  "fst ` set (fold (\<lambda>kv d. AList.update (fst kv) (snd kv) d) kvs d0) = fst ` set kvs \<union> fst ` set d0"
proof (induction kvs arbitrary: d0)
  case Nil
  show ?case by simp
next
  case (Cons kv kvs)
  have "fst ` set (AList.update (fst kv) (snd kv) d0) = insert (fst kv) (fst ` set d0)"
    using dom_update [of "fst kv" "snd kv" d0] by (simp add: dom_map_of_conv_image_fst)
  then show ?case using Cons.IH [of "AList.update (fst kv) (snd kv) d0"] by auto
qed

lemma map_of_py_dict_None: "map_of (py_dict kvs) k = None \<longleftrightarrow> map_of kvs k = None"
  by (simp add: py_dict_def map_of_eq_None_iff keys_fold_update)

lemma has_member_well_formed:
  "list_all (\<lambda>d. map_of d ''latitudeE7'' \<noteq> None \<and> map_of d ''longitudeE7'' \<noteq> None \<and>
                 map_of d ''timestampMs'' \<noteq> None) recs \<Longrightarrow> recs \<noteq> [] \<Longrightarrow>
   has_member recs ''latitudeE7'' \<and> has_member recs ''longitudeE7'' \<and>
   has_member recs ''timestampMs''"
  by (cases recs) (simp_all add: has_member_def)

lemma ReadJson_well_formed:
  assumes "well_formed filepath"
  shows "ReadJson filepath =
           Inr (df_filter_items (DataFrame_from_dict (locations filepath))
                  [''latitudeE7'', ''longitudeE7'', ''timestampMs''])"
  using assms
  by (cases filepath)
     (auto simp: well_formed_def ReadJson_def pd_read_json_def locations_def Let_def
        map_of_relabel)

text \<open>
  Claim C8. For every file of the expected shape the loader returns a frame with one row
  per record, in file order, and exactly the columns \<^verbatim>\<open>latitudeE7\<close>, \<^verbatim>\<open>longitudeE7\<close> and
  \<^verbatim>\<open>timestampMs\<close>, each row holding the record's own three values; every other member of
  a record is dropped. (With no record at all the frame has no column.)
\<close>

theorem loader_three_fields:
  assumes "well_formed filepath"
  shows "\<exists>raw. ReadJson filepath = Inr raw \<and>
           index raw = [0..<length (locations filepath)] \<and>
           columns raw =
             (if locations filepath = [] then []
              else [(''latitudeE7'',
                      RawCol (map (\<lambda>d. map_of d ''latitudeE7'') (locations filepath))),
                    (''longitudeE7'',
                      RawCol (map (\<lambda>d. map_of d ''longitudeE7'') (locations filepath))),
                    (''timestampMs'',
                      RawCol (map (\<lambda>d. map_of d ''timestampMs'') (locations filepath)))])"
proof -
  let ?recs = "locations filepath"
  have wf: "list_all (\<lambda>d. map_of d ''latitudeE7'' \<noteq> None \<and> map_of d ''longitudeE7'' \<noteq> None \<and>
                 map_of d ''timestampMs'' \<noteq> None) ?recs"
    using assms by (cases filepath) (simp_all add: well_formed_def)
  show ?thesis
  proof (cases "?recs = []")
    case True
    then show ?thesis
      using ReadJson_well_formed [OF assms]
      by (simp add: df_filter_items_def DataFrame_from_dict_def List.map_filter_simps)
  next
    case False
    from has_member_well_formed [OF wf False] show ?thesis
      using ReadJson_well_formed [OF assms] False
      by (simp add: df_filter_items_def List.map_filter_simps map_of_from_dict
            DataFrame_from_dict_def [of ?recs, THEN arg_cong, of index])
  qed
qed

text \<open>
  Claim C5, amended. The loader raises \<^verbatim>\<open>ValueError\<close> when the file does not decode or its
  top-level arrays differ in length, and \<^verbatim>\<open>KeyError\<close> when the key \<^verbatim>\<open>"locations"\<close> is
  absent; in every other case it succeeds, whatever members the records have or lack: it
  checks no record field, and there is no \<^verbatim>\<open>FormatError\<close> in the program.
\<close>

theorem ReadJson_failures:
  "ReadJson Malformed = Inl ValueError \<and>
   (\<not> same_length (map snd (py_dict members)) \<longrightarrow>
      ReadJson (Document members) = Inl ValueError) \<and>
   (same_length (map snd (py_dict members)) \<and> map_of members ''locations'' = None \<longrightarrow>
      ReadJson (Document members) = Inl (KeyError ''locations'')) \<and>
   (same_length (map snd (py_dict members)) \<and> map_of members ''locations'' \<noteq> None \<longrightarrow>
      ReadJson (Document members) =
        Inr (df_filter_items (DataFrame_from_dict (locations (Document members)))
               [''latitudeE7'', ''longitudeE7'', ''timestampMs'']))"
  using map_of_py_dict_None [of members "''locations''"]
  by (auto simp: ReadJson_def pd_read_json_def Let_def map_of_relabel locations_def
        split: option.splits)

lemma well_formed_example: "well_formed example_file"
  by code_simp

theorem loader_three_fields_witness:
  "well_formed example_file \<and> ReadJson example_file = Inr example_raw \<and>
   map fst (columns example_raw) = [''latitudeE7'', ''longitudeE7'', ''timestampMs''] \<and>
   length (locations example_file) = 5"
proof -
  from loader_three_fields [OF well_formed_example] obtain raw
    where r: "ReadJson example_file = Inr raw"
      and i: "index raw = [0..<length (locations example_file)]"
    by blast
  from r ReadJson_example have e: "raw = example_raw" by simp
  have "length (index raw) = length (locations example_file)"
    using i by simp
  moreover have "length (index raw) = 5"
    using e by (simp add: example_raw_def)
  ultimately have "length (locations example_file) = 5" by simp
  then show ?thesis
    using well_formed_example ReadJson_example by (simp add: example_raw_def)
qed

lemma ReadJson_failures_examples:
  "\<not> same_length (map snd (py_dict [(''locations'', [[] :: jobject]), (''settings'', [])]))"
  "same_length (map snd (py_dict [(''places'', [[(''latitudeE7'', JInt 1)]])]))"
  "map_of [(''places'', [[(''latitudeE7'', JInt 1)]])] ''locations'' = None"
  "same_length (map snd (py_dict [(''locations'', [[(''latitudeE7'', JInt 377749000)]])]))"
  "map_of [(''locations'', [[(''latitudeE7'', JInt 377749000)]])] ''locations'' \<noteq> None"
  by (simp_all add: py_dict_def)

lemma ReadJson_partial_record:
  "df_filter_items
     (DataFrame_from_dict
       (locations (Document [(''locations'', [[(''latitudeE7'', JInt 377749000)]])])))
     [''latitudeE7'', ''longitudeE7'', ''timestampMs''] =
   \<lparr>index = [0], columns = [(''latitudeE7'', RawCol [Some (JInt 377749000)])]\<rparr>"
  by code_simp

theorem ReadJson_failures_witness:
  "\<not> same_length (map snd (py_dict [(''locations'', [[] :: jobject]), (''settings'', [])])) \<and>
   ReadJson (Document [(''locations'', [[]]), (''settings'', [])]) = Inl ValueError \<and>
   same_length (map snd (py_dict [(''places'', [[(''latitudeE7'', JInt 1)]])])) \<and>
   map_of [(''places'', [[(''latitudeE7'', JInt 1)]])] ''locations'' = None \<and>
   ReadJson (Document [(''places'', [[(''latitudeE7'', JInt 1)]])]) =
     Inl (KeyError ''locations'') \<and>
   same_length (map snd (py_dict [(''locations'', [[(''latitudeE7'', JInt 377749000)]])])) \<and>
   map_of [(''locations'', [[(''latitudeE7'', JInt 377749000)]])] ''locations'' \<noteq> None \<and>
   ReadJson (Document [(''locations'', [[(''latitudeE7'', JInt 377749000)]])]) =
     Inr \<lparr>index = [0], columns = [(''latitudeE7'', RawCol [Some (JInt 377749000)])]\<rparr>"
  using ReadJson_failures [of "[(''locations'', [[]]), (''settings'', [])]"]
    ReadJson_failures [of "[(''places'', [[(''latitudeE7'', JInt 1)]])]"]
    ReadJson_failures [of "[(''locations'', [[(''latitudeE7'', JInt 377749000)]])]"]
    ReadJson_failures_examples
  unfolding ReadJson_partial_record
  by blast

text \<open>
  The claim as stated fails: two records that have none of the three fields are loaded
  without an error, into a frame of two rows and no column.
\<close>

theorem ReadJson_missing_fields_counterexample:
  "ReadJson (Document [(''locations'', [[(''accuracy'', JInt 5)], []])]) =
     Inr \<lparr>index = [0, 1], columns = []\<rparr>"
  by code_simp

section \<open>Properties of the transformer\<close>

lemma getitem_setitem:
  "getitem (setitem df k c) k' = (if k' = k then Inr c else getitem df k')"
  by (simp add: getitem_def setitem_def update_conv')

lemma index_setitem: "index (setitem df k c) = index df"
  by (simp add: setitem_def)

lemma DeriveTimeIntervals_steps:
  "DeriveTimeIntervals json_df =
     and_then (getitem json_df ''timestampMs'') (\<lambda>ts.
     and_then (pd_to_datetime ts) (\<lambda>date_time.
     and_then (astype_str (dt_field dt_month date_time)) (\<lambda>month.
     and_then (astype_str (dt_field dt_day date_time)) (\<lambda>day.
     and_then (astype_str (dt_field dt_year date_time)) (\<lambda>year.
     and_then (astype_str (dt_field dt_hour date_time)) (\<lambda>hour.
     and_then (astype_str (dt_field dt_minute date_time)) (\<lambda>minute.
       Inr (setitem (setitem (setitem (setitem (setitem (setitem (setitem (setitem json_df
              ''year'' (dt_field dt_year date_time))
              ''month'' (dt_field dt_month date_time))
              ''day'' (dt_field dt_day date_time))
              ''hour'' (dt_field dt_hour date_time))
              ''min'' (dt_field dt_minute date_time))
              ''sec'' (dt_field dt_second date_time))
              ''timestamp_fixed'' (DatetimeCol date_time))
              ''timestamp_string'' (StrCol (derived_string month day year hour minute))))))))))"
  unfolding DeriveTimeIntervals_def Let_def derived_string_def
  by (simp add: getitem_setitem and_then_def cong: sum.case_cong)

lemma to_datetime_cell_ms: "cell_ms c = Some t \<Longrightarrow> to_datetime_cell c = Inr (Some t)"
  by (cases c rule: cell_ms.cases) (auto simp: ms_in_bounds_def split: if_splits)

lemma to_datetime_cells_ms:
  "those (map cell_ms cs) = Some ts \<Longrightarrow> to_datetime_cells cs = Inr (map Some ts)"
proof (induction cs arbitrary: ts)
  case Nil
  then show ?case by simp
next
  case (Cons c cs)
  from Cons.prems obtain t ts' where c: "cell_ms c = Some t"
    and cs: "those (map cell_ms cs) = Some ts'" and ts: "ts = t # ts'"
    by (auto split: option.splits)
  show ?case
    using to_datetime_cell_ms [OF c] Cons.IH [OF cs] ts by simp
qed

lemma those_map_Some: "those (map Some ts) = Some ts"
  by (induction ts) simp_all

lemma dt_field_Some: "dt_field f (map Some ts) = IntCol (map f ts)"
  by (simp add: dt_field_def those_map_Some)

lemma add_str_map: "add_str (map f ts) s = map (\<lambda>t. f t @ s) ts"
  by (simp add: add_str_def)

lemma add_col_map: "add_col (map f ts) (map g ts) = map (\<lambda>t. f t @ g t) ts"
  by (induction ts) (simp_all add: add_col_def)

lemma derived_string_map:
  "derived_string (map m ts) (map d ts) (map y ts) (map h ts) (map mi ts) =
     map (\<lambda>t. m t @ ''/'' @ d t @ ''/'' @ y t @ '' '' @ h t @ '':'' @ mi t) ts"
  by (simp add: derived_string_def add_str_map add_col_map)

lemma DeriveTimeIntervals_numbers:
  assumes "getitem json_df ''timestampMs'' = Inr (RawCol cs)"
    and "those (map cell_ms cs) = Some ts"
  shows "DeriveTimeIntervals json_df =
     Inr (setitem (setitem (setitem (setitem (setitem (setitem (setitem (setitem json_df
              ''year'' (IntCol (map dt_year ts)))
              ''month'' (IntCol (map dt_month ts)))
              ''day'' (IntCol (map dt_day ts)))
              ''hour'' (IntCol (map dt_hour ts)))
              ''min'' (IntCol (map dt_minute ts)))
              ''sec'' (IntCol (map dt_second ts)))
              ''timestamp_fixed'' (DatetimeCol (map Some ts)))
              ''timestamp_string'' (StrCol (map (\<lambda>t. str_int (dt_month t) @ ''/'' @
                 str_int (dt_day t) @ ''/'' @ str_int (dt_year t) @ '' '' @
                 str_int (dt_hour t) @ '':'' @ str_int (dt_minute t)) ts)))"
  using assms to_datetime_cells_ms [OF assms(2)]
  by (simp add: DeriveTimeIntervals_steps and_then_def dt_field_Some
        derived_string_map [of "\<lambda>t. str_int (dt_month t)" ts "\<lambda>t. str_int (dt_day t)"
           "\<lambda>t. str_int (dt_year t)" "\<lambda>t. str_int (dt_hour t)" "\<lambda>t. str_int (dt_minute t)",
           simplified map_map [symmetric] comp_def] comp_def)

lemma FixLatLong_steps:
  "FixLatLong json_df = Inr df \<Longrightarrow>
   \<exists>latc lonc lat lon.
     getitem json_df ''latitudeE7'' = Inr latc \<and> truediv latc 10000000 = Inr lat \<and>
     getitem json_df ''longitudeE7'' = Inr lonc \<and> truediv lonc 10000000 = Inr lon \<and>
     df = setitem (setitem json_df ''latitudeE7'' lat) ''longitudeE7'' lon"
  by (auto simp: FixLatLong_def and_then_def Let_def getitem_setitem split: sum.splits)

lemma DeriveTimeIntervals_keeps:
  assumes "DeriveTimeIntervals json_df = Inr df"
    and "k \<notin> {''year'', ''month'', ''day'', ''hour'', ''min'', ''sec'', ''timestamp_fixed'',
               ''timestamp_string''}"
  shows "getitem df k = getitem json_df k"
  using assms
  by (auto simp: DeriveTimeIntervals_steps and_then_def getitem_setitem split: sum.splits)

lemma those_raw_number:
  "those (map raw_number cs) = Some xs \<Longrightarrow>
   map (map_option (\<lambda>x. float_truediv x 10000000)) xs = map fixed_cell cs"
proof (induction cs arbitrary: xs)
  case Nil
  then show ?case by simp
next
  case (Cons c cs)
  from Cons.prems obtain x xs' where c: "raw_number c = Some x"
    and cs: "those (map raw_number cs) = Some xs'" and xs: "xs = x # xs'"
    by (auto split: option.splits)
  have "map_option (\<lambda>x. float_truediv x 10000000) x = fixed_cell c"
    using c by (cases c rule: raw_number.cases) (auto simp: fixed_def)
  then show ?case using Cons.IH [OF cs] xs by simp
qed

lemma truediv_RawCol:
  "truediv (RawCol cs) 10000000 = Inr col \<Longrightarrow> col = FloatCol (map fixed_cell cs)"
  by (auto simp: those_raw_number split: option.splits)

lemma init_steps:
  "MapMeClass_init filepath = Inr self \<Longrightarrow>
   \<exists>raw timed. ReadJson filepath = Inr raw \<and> DeriveTimeIntervals raw = Inr timed \<and>
     FixLatLong timed = Inr (data self) \<and> originaldata self = data self"
  by (auto simp: MapMeClass_init_def and_then_def split: sum.splits)

lemma those_raw_number_all:
  "those (map raw_number cs) = Some xs \<Longrightarrow> list_all (\<lambda>c. raw_number c \<noteq> None) cs"
  by (induction cs arbitrary: xs) (auto split: option.splits)

lemma truediv_RawCol_numbers:
  assumes "truediv (RawCol cs) 10000000 = Inr col"
  shows "list_all (\<lambda>c. raw_number c \<noteq> None) cs"
proof -
  from assms obtain xs where "those (map raw_number cs) = Some xs"
    by (auto split: option.splits)
  then show ?thesis by (rule those_raw_number_all)
qed

lemma fix_examples:
  "fixed 377749000 = Float64 5316344548873680 (- 47)"
  "float_quot 377749 10000 = Float64 5316344548873680 (- 47)"
  "fixed (- 1224194000) = Float64 (- 8614499440983120) (- 46)"
  "float_quot (- 1224194) 10000 = Float64 (- 8614499440983120) (- 46)"
  "float_truediv (fixed 377749000) 10000000 = Float64 8919346082687629 (- 71)"
  by code_simp+

text \<open>
  Claim C1. In every constructed object the latitude and longitude columns hold, row by
  row, the record's raw integer converted to double and divided by \<open>10000000\<close> (one
  correctly rounded double division), and a gap where the record has no such member; every
  raw value is an integer or a gap. The division is applied once: the columns are the
  loaded values divided, and the snapshot is the same frame. In particular \<open>377749000\<close>
  becomes the double nearest to \<open>37.7749\<close> and \<open>- 1224194000\<close> the double nearest to
  \<open>- 122.4194\<close>; dividing a second time would give another number.
\<close>

theorem coordinate_fix:
  assumes "MapMeClass_init filepath = Inr self"
  shows "getitem (data self) ''latitudeE7'' =
           Inr (FloatCol (map (\<lambda>d. fixed_cell (map_of d ''latitudeE7'')) (locations filepath))) \<and>
         getitem (data self) ''longitudeE7'' =
           Inr (FloatCol (map (\<lambda>d. fixed_cell (map_of d ''longitudeE7'')) (locations filepath))) \<and>
         list_all (\<lambda>d. raw_number (map_of d ''latitudeE7'') \<noteq> None \<and>
                        raw_number (map_of d ''longitudeE7'') \<noteq> None) (locations filepath) \<and>
         originaldata self = data self \<and>
         fixed 377749000 = Float64 5316344548873680 (- 47) \<and>
         float_quot 377749 10000 = Float64 5316344548873680 (- 47) \<and>
         fixed (- 1224194000) = Float64 (- 8614499440983120) (- 46) \<and>
         float_quot (- 1224194) 10000 = Float64 (- 8614499440983120) (- 46) \<and>
         float_truediv (fixed 377749000) 10000000 = Float64 8919346082687629 (- 71)"
proof -
  from init_steps [OF assms] obtain raw timed where
    r: "ReadJson filepath = Inr raw" and t: "DeriveTimeIntervals raw = Inr timed" and
    f: "FixLatLong timed = Inr (data self)" and o: "originaldata self = data self"
    by blast
  from FixLatLong_steps [OF f] obtain latc lonc lat lon where
    glat: "getitem timed ''latitudeE7'' = Inr latc" and dlat: "truediv latc 10000000 = Inr lat" and
    glon: "getitem timed ''longitudeE7'' = Inr lonc" and dlon: "truediv lonc 10000000 = Inr lon" and
    d: "data self = setitem (setitem timed ''latitudeE7'' lat) ''longitudeE7'' lon"
    by blast
  have klat: "getitem raw ''latitudeE7'' = Inr latc"
    using DeriveTimeIntervals_keeps [OF t, of "''latitudeE7''"] glat by simp
  have klon: "getitem raw ''longitudeE7'' = Inr lonc"
    using DeriveTimeIntervals_keeps [OF t, of "''longitudeE7''"] glon by simp
  have latc: "latc = RawCol (map (\<lambda>d. map_of d ''latitudeE7'') (locations filepath))"
    using klat ReadJson_getitem [OF r, of "''latitudeE7''"] by (simp split: if_splits)
  have lonc: "lonc = RawCol (map (\<lambda>d. map_of d ''longitudeE7'') (locations filepath))"
    using klon ReadJson_getitem [OF r, of "''longitudeE7''"] by (simp split: if_splits)
  have lat: "lat = FloatCol (map (\<lambda>d. fixed_cell (map_of d ''latitudeE7'')) (locations filepath))"
    using truediv_RawCol [OF dlat [unfolded latc]] by (simp add: comp_def)
  have lon: "lon = FloatCol (map (\<lambda>d. fixed_cell (map_of d ''longitudeE7'')) (locations filepath))"
    using truediv_RawCol [OF dlon [unfolded lonc]] by (simp add: comp_def)
  have nlat: "list_all (\<lambda>d. raw_number (map_of d ''latitudeE7'') \<noteq> None) (locations filepath)"
    using truediv_RawCol_numbers [OF dlat [unfolded latc]] by (simp add: list_all_iff)
  have nlon: "list_all (\<lambda>d. raw_number (map_of d ''longitudeE7'') \<noteq> None) (locations filepath)"
    using truediv_RawCol_numbers [OF dlon [unfolded lonc]] by (simp add: list_all_iff)
  have main:
    "getitem (data self) ''latitudeE7'' =
       Inr (FloatCol (map (\<lambda>d. fixed_cell (map_of d ''latitudeE7'')) (locations filepath))) \<and>
     getitem (data self) ''longitudeE7'' =
       Inr (FloatCol (map (\<lambda>d. fixed_cell (map_of d ''longitudeE7'')) (locations filepath))) \<and>
     list_all (\<lambda>d. raw_number (map_of d ''latitudeE7'') \<noteq> None \<and>
                    raw_number (map_of d ''longitudeE7'') \<noteq> None) (locations filepath) \<and>
     originaldata self = data self"
    unfolding d using lat lon o d nlat nlon by (simp add: getitem_setitem list_all_iff)
  from main fix_examples show ?thesis by (elim conjE) (intro conjI; assumption)
qed

lemma getitem_data_derived:
  assumes f: "FixLatLong timed = Inr df"
    and k: "k \<noteq> ''latitudeE7''" "k \<noteq> ''longitudeE7''"
  shows "getitem df k = getitem timed k"
proof -
  from FixLatLong_steps [OF f] obtain lat lon where
    "df = setitem (setitem timed ''latitudeE7'' lat) ''longitudeE7'' lon"
    by blast
  then show ?thesis using k by (simp add: getitem_setitem)
qed

lemma time_examples:
  "dt_year 1609459200000 = 2021" "dt_month 1609459200000 = 1" "dt_day 1609459200000 = 1"
  "dt_hour 1609459200000 = 0" "dt_minute 1609459200000 = 0" "dt_second 1609459200000 = 0"
  "str_int 1 @ ''/'' @ str_int 1 @ ''/'' @ str_int 2021 @ '' '' @ str_int 0 @ '':'' @ str_int 0 =
     ''1/1/2021 0:0''"
  by code_simp+

text \<open>
  Claim C2, amended. In every constructed object whose records all have a timestamp that
  is a number in range, every row has the year, month, day, hour, minute and second of its
  timestamp (milliseconds since the epoch, UTC) as integers, and its \<^verbatim>\<open>timestamp_string\<close>
  is the decimal numerals of month, day, year, hour and minute joined by \<^verbatim>\<open>/\<close>, \<^verbatim>\<open>/\<close>, a
  blank and \<^verbatim>\<open>:\<close>, without padding. In particular \<open>1609459200000\<close> gives 2021, 1, 1, 0, 0, 0
  and the string \<^verbatim>\<open>1/1/2021 0:0\<close>. (When a record has no timestamp the fields of all rows
  are floats: see the counterexample below.)
\<close>

theorem time_derivation:
  assumes init: "MapMeClass_init filepath = Inr self"
    and ts: "those (map (\<lambda>d. cell_ms (map_of d ''timestampMs'')) (locations filepath)) = Some ts"
  shows "getitem (data self) ''year'' = Inr (IntCol (map dt_year ts)) \<and>
         getitem (data self) ''month'' = Inr (IntCol (map dt_month ts)) \<and>
         getitem (data self) ''day'' = Inr (IntCol (map dt_day ts)) \<and>
         getitem (data self) ''hour'' = Inr (IntCol (map dt_hour ts)) \<and>
         getitem (data self) ''min'' = Inr (IntCol (map dt_minute ts)) \<and>
         getitem (data self) ''sec'' = Inr (IntCol (map dt_second ts)) \<and>
         getitem (data self) ''timestamp_string'' =
           Inr (StrCol (map (\<lambda>t. str_int (dt_month t) @ ''/'' @ str_int (dt_day t) @ ''/'' @
                               str_int (dt_year t) @ '' '' @ str_int (dt_hour t) @ '':'' @
                               str_int (dt_minute t)) ts)) \<and>
         dt_year 1609459200000 = 2021 \<and> dt_month 1609459200000 = 1 \<and>
         dt_day 1609459200000 = 1 \<and> dt_hour 1609459200000 = 0 \<and>
         dt_minute 1609459200000 = 0 \<and> dt_second 1609459200000 = 0 \<and>
         str_int 1 @ ''/'' @ str_int 1 @ ''/'' @ str_int 2021 @ '' '' @ str_int 0 @ '':'' @
           str_int 0 = ''1/1/2021 0:0''"
proof -
  from init_steps [OF init] obtain raw timed where
    r: "ReadJson filepath = Inr raw" and t: "DeriveTimeIntervals raw = Inr timed" and
    f: "FixLatLong timed = Inr (data self)"
    by blast
  have "getitem raw ''timestampMs'' \<noteq> Inl (KeyError ''timestampMs'')"
    using t by (auto simp: DeriveTimeIntervals_steps and_then_def)
  then have g: "getitem raw ''timestampMs'' =
      Inr (RawCol (map (\<lambda>d. map_of d ''timestampMs'') (locations filepath)))"
    using ReadJson_getitem [OF r, of "''timestampMs''"] by (simp split: if_splits)
  have ts': "those (map cell_ms (map (\<lambda>d. map_of d ''timestampMs'') (locations filepath))) = Some ts"
    using ts by (simp add: comp_def)
  note n = DeriveTimeIntervals_numbers [OF g ts']
  from t n have timed: "timed = setitem (setitem (setitem (setitem (setitem (setitem (setitem (setitem raw
              ''year'' (IntCol (map dt_year ts)))
              ''month'' (IntCol (map dt_month ts)))
              ''day'' (IntCol (map dt_day ts)))
              ''hour'' (IntCol (map dt_hour ts)))
              ''min'' (IntCol (map dt_minute ts)))
              ''sec'' (IntCol (map dt_second ts)))
              ''timestamp_fixed'' (DatetimeCol (map Some ts)))
              ''timestamp_string'' (StrCol (map (\<lambda>t. str_int (dt_month t) @ ''/'' @
                 str_int (dt_day t) @ ''/'' @ str_int (dt_year t) @ '' '' @
                 str_int (dt_hour t) @ '':'' @ str_int (dt_minute t)) ts))"
    by simp
  have "getitem (data self) ''year'' = getitem timed ''year''"
    "getitem (data self) ''month'' = getitem timed ''month''"
    "getitem (data self) ''day'' = getitem timed ''day''"
    "getitem (data self) ''hour'' = getitem timed ''hour''"
    "getitem (data self) ''min'' = getitem timed ''min''"
    "getitem (data self) ''sec'' = getitem timed ''sec''"
    "getitem (data self) ''timestamp_string'' = getitem timed ''timestamp_string''"
    by (simp_all add: getitem_data_derived [OF f])
  then have main:
    "getitem (data self) ''year'' = Inr (IntCol (map dt_year ts)) \<and>
     getitem (data self) ''month'' = Inr (IntCol (map dt_month ts)) \<and>
     getitem (data self) ''day'' = Inr (IntCol (map dt_day ts)) \<and>
     getitem (data self) ''hour'' = Inr (IntCol (map dt_hour ts)) \<and>
     getitem (data self) ''min'' = Inr (IntCol (map dt_minute ts)) \<and>
     getitem (data self) ''sec'' = Inr (IntCol (map dt_second ts)) \<and>
     getitem (data self) ''timestamp_string'' =
       Inr (StrCol (map (\<lambda>t. str_int (dt_month t) @ ''/'' @ str_int (dt_day t) @ ''/'' @
                           str_int (dt_year t) @ '' '' @ str_int (dt_hour t) @ '':'' @
                           str_int (dt_minute t)) ts))"
    unfolding timed by (simp add: getitem_setitem)
  from main time_examples show ?thesis by (elim conjE) (intro conjI; assumption)
qed

lemma timestamps_example:
  "those (map (\<lambda>d. cell_ms (map_of d ''timestampMs'')) (locations example_file)) =
     Some [1609459200000, 1582934399999, 0, - 1, 951782400000]"
  by code_simp

theorem time_derivation_witness:
  "MapMeClass_init example_file = Inr example_self \<and>
   those (map (\<lambda>d. cell_ms (map_of d ''timestampMs'')) (locations example_file)) =
     Some [1609459200000, 1582934399999, 0, - 1, 951782400000] \<and>
   map dt_year [1609459200000, 1582934399999, 0, - 1, 951782400000] =
     [2021, 2020, 1970, 1969, 2000] \<and>
   map (\<lambda>t. str_int (dt_month t) @ ''/'' @ str_int (dt_day t) @ ''/'' @
             str_int (dt_year t) @ '' '' @ str_int (dt_hour t) @ '':'' @
             str_int (dt_minute t)) [1609459200000, 1582934399999, 0, - 1, 951782400000] =
     [''1/1/2021 0:0'', ''2/28/2020 23:59'', ''1/1/1970 0:0'', ''12/31/1969 23:59'',
      ''2/29/2000 0:0'']"
proof -
  note t = time_derivation [OF init_example timestamps_example]
  have y: "getitem (data example_self) ''year'' = Inr (IntCol [2021, 2020, 1970, 1969, 2000])"
    by (simp add: getitem_def example_self_def example_data_def)
  have s: "getitem (data example_self) ''timestamp_string'' =
      Inr (StrCol [''1/1/2021 0:0'', ''2/28/2020 23:59'', ''1/1/1970 0:0'',
                   ''12/31/1969 23:59'', ''2/29/2000 0:0''])"
    by (simp add: getitem_def example_self_def example_data_def)
  have y': "getitem (data example_self) ''year'' =
      Inr (IntCol (map dt_year [1609459200000, 1582934399999, 0, - 1, 951782400000]))"
    using t by (elim conjE)
  have s': "getitem (data example_self) ''timestamp_string'' =
      Inr (StrCol (map (\<lambda>t. str_int (dt_month t) @ ''/'' @ str_int (dt_day t) @ ''/'' @
             str_int (dt_year t) @ '' '' @ str_int (dt_hour t) @ '':'' @
             str_int (dt_minute t)) [1609459200000, 1582934399999, 0, - 1, 951782400000]))"
    using t by (elim conjE)
  have a: "map dt_year [1609459200000, 1582934399999, 0, - 1, 951782400000] =
     [2021, 2020, 1970, 1969, 2000]"
    using y' unfolding y by (simp only: sum.inject column.inject)
  have b: "map (\<lambda>t. str_int (dt_month t) @ ''/'' @ str_int (dt_day t) @ ''/'' @
             str_int (dt_year t) @ '' '' @ str_int (dt_hour t) @ '':'' @
             str_int (dt_minute t)) [1609459200000, 1582934399999, 0, - 1, 951782400000] =
     [''1/1/2021 0:0'', ''2/28/2020 23:59'', ''1/1/1970 0:0'', ''12/31/1969 23:59'',
      ''2/29/2000 0:0'']"
    using s' unfolding s by (simp only: sum.inject column.inject)
  from init_example timestamps_example a b show ?thesis
    by - (intro conjI; assumption)
qed

theorem coordinate_fix_witness:
  "MapMeClass_init example_file = Inr example_self \<and>
   map (\<lambda>d. fixed_cell (map_of d ''latitudeE7'')) (locations example_file) =
     [Some (Float64 5316344548873680 (- 47)), Some (Float64 5666839779443574 (- 74)),
      Some (Float64 4503599627370496 (- 52)), Some (Float64 (- 6333186975989760) (- 46)),
      Some (Float64 0 (- 1074))] \<and>
   map (\<lambda>d. fixed_cell (map_of d ''longitudeE7'')) (locations example_file) =
     [Some (Float64 (- 8614499440983120) (- 46)), Some (Float64 7555786372591432 (- 74)),
      Some (Float64 4503599627370496 (- 51)), Some (Float64 6333186975989760 (- 45)),
      Some (Float64 0 (- 1074))]"
proof -
  note c = coordinate_fix [OF init_example]
  have lat: "getitem (data example_self) ''latitudeE7'' =
      Inr (FloatCol (map (\<lambda>d. fixed_cell (map_of d ''latitudeE7'')) (locations example_file)))"
    using c by (elim conjE)
  have lon: "getitem (data example_self) ''longitudeE7'' =
      Inr (FloatCol (map (\<lambda>d. fixed_cell (map_of d ''longitudeE7'')) (locations example_file)))"
    using c by (elim conjE)
  have a: "map (\<lambda>d. fixed_cell (map_of d ''latitudeE7'')) (locations example_file) =
     [Some (Float64 5316344548873680 (- 47)), Some (Float64 5666839779443574 (- 74)),
      Some (Float64 4503599627370496 (- 52)), Some (Float64 (- 6333186975989760) (- 46)),
      Some (Float64 0 (- 1074))]"
    using lat unfolding getitem_example_self(1) by (simp only: sum.inject column.inject)
  have b: "map (\<lambda>d. fixed_cell (map_of d ''longitudeE7'')) (locations example_file) =
     [Some (Float64 (- 8614499440983120) (- 46)), Some (Float64 7555786372591432 (- 74)),
      Some (Float64 4503599627370496 (- 51)), Some (Float64 6333186975989760 (- 45)),
      Some (Float64 0 (- 1074))]"
    using lon unfolding getitem_example_self(2) by (simp only: sum.inject column.inject)
  from init_example a b show ?thesis
    by - (intro conjI; assumption)
qed

section \<open>A record without a timestamp\<close>

lemma ReadJson_gap: "ReadJson gap_file = Inr gap_raw"
  by code_simp

lemma DeriveTimeIntervals_gap: "DeriveTimeIntervals gap_raw = Inr gap_timed"
  by code_simp

lemma FixLatLong_gap: "FixLatLong gap_timed = Inr gap_data"
  by code_simp

lemma init_gap: "MapMeClass_init gap_file = Inr gap_self"
  by (simp add: MapMeClass_init_def and_then_def ReadJson_gap DeriveTimeIntervals_gap
        FixLatLong_gap gap_self_def)

lemma gap_first_record:
  "map_of (locations gap_file ! 0) ''timestampMs'' = Some (JInt 1609459200000)"
  by code_simp


lemma getitem_gap_self:
  "getitem (data gap_self) ''year'' =
     Inr (FloatCol [Some (Float64 8888451998941184 (- 42)), None])"
  "getitem (data gap_self) ''timestamp_string'' =
     Inr (StrCol [''1.0/1.0/2021.0 0.0:0.0'', ''nan/nan/nan nan:nan''])"
  "getitem (data gap_self) ''timestamp_fixed'' = Inr (DatetimeCol [Some 1609459200000, None])"
  by (simp_all add: getitem_def gap_self_def gap_data_def)

text \<open>
  Claim C2 as stated fails. The constructor accepts a file in which another record lacks
  its timestamp; pandas then makes every derived field a float64 column, so the record
  whose \<^verbatim>\<open>timestampMs\<close> is \<open>1609459200000\<close> has the year \<open>2021.0\<close> (the double
  \<open>8888451998941184 * 2 ^ - 42\<close>), not an integer, and the string
  \<^verbatim>\<open>1.0/1.0/2021.0 0.0:0.0\<close>, not \<^verbatim>\<open>1/1/2021 0:0\<close>.
\<close>

theorem float_fields_counterexample:
  "MapMeClass_init gap_file = Inr gap_self \<and>
   map_of (locations gap_file ! 0) ''timestampMs'' = Some (JInt 1609459200000) \<and>
   getitem (data gap_self) ''year'' =
     Inr (FloatCol [Some (Float64 8888451998941184 (- 42)), None]) \<and>
   getitem (data gap_self) ''timestamp_string'' =
     Inr (StrCol [''1.0/1.0/2021.0 0.0:0.0'', ''nan/nan/nan nan:nan''])"
  using init_gap gap_first_record getitem_gap_self(1,2) by (intro conjI)

section \<open>Records with a missing or non-numeric timestamp\<close>

























end
